theory Spec2Isabelle
  imports Main
begin

section \<open>JavaScript strings, truthiness and thrown values\<close>

text \<open>
  The orchestration workflow of the repository is embedded as state-passing functions:
  a computation takes the world (database, call counters, waits) and returns either the
  thrown value (\<open>Inl\<close>) or the returned value (\<open>Inr\<close>), with the new world.
  Every external collaborator (database, provider HTTP API, media store) answers from a
  script held in the environment, indexed by the number of the call. Strings are
  sequences of ASCII characters, so that \<open>length\<close> counts what JavaScript's \<open>length\<close>
  counts; numbers are integers.
\<close>

definition digitChar :: "nat \<Rightarrow> char" where
  "digitChar d = (''0123456789'' ! (d mod 10))"

function showNat :: "nat \<Rightarrow> string" where
  "showNat n = (if n < 10 then [digitChar n] else showNat (n div 10) @ [digitChar (n mod 10)])"
  by pat_completeness auto
termination
  by (relation "measure id") auto

definition showInt :: "int \<Rightarrow> string" where
  "showInt i = (if i < 0 then CHR ''-'' # showNat (nat (- i)) else showNat (nat i))"

definition isSpace :: "char \<Rightarrow> bool" where
  "isSpace c = (c = CHR '' '' \<or> c = CHR 0x09 \<or> c = CHR 0x0A \<or> c = CHR 0x0B
                 \<or> c = CHR 0x0C \<or> c = CHR 0x0D)"

definition trim :: "string \<Rightarrow> string" where
  "trim s = rev (dropWhile isSpace (rev (dropWhile isSpace s)))"

fun startsWith :: "string \<Rightarrow> string \<Rightarrow> bool" where
  "startsWith s [] = True"
| "startsWith [] (c # cs) = False"
| "startsWith (x # xs) (c # cs) = (x = c \<and> startsWith xs cs)"

fun strIncludes :: "string \<Rightarrow> string \<Rightarrow> bool" where
  "strIncludes [] t = (t = [])"
| "strIncludes (x # xs) t = (startsWith (x # xs) t \<or> strIncludes xs t)"

text \<open>\<open>a || b\<close> on optional strings: undefined, null and the empty string are falsy.\<close>

definition truthy :: "string option \<Rightarrow> bool" where
  "truthy a = (case a of None \<Rightarrow> False | Some s \<Rightarrow> s \<noteq> [])"

definition jsOr :: "string option \<Rightarrow> string option \<Rightarrow> string option" where
  "jsOr a b = (if truthy a then a else b)"

definition orString :: "string option \<Rightarrow> string \<Rightarrow> string" where
  "orString a d = (case a of None \<Rightarrow> d | Some s \<Rightarrow> if s = [] then d else s)"

definition orInt :: "int option \<Rightarrow> int \<Rightarrow> int" where
  "orInt a d = (case a of None \<Rightarrow> d | Some i \<Rightarrow> if i = 0 then d else i)"

text \<open>
  Thrown values. \<open>AppError message statusCode errorCode\<close> is the class of
  utils/imageGenerationErrors; \<open>QuotaExceededError\<close>, \<open>ValidationError\<close> and
  \<open>SubscriptionError\<close> are its subclasses, built by the orchestrator with the message
  first; \<open>Error\<close> is a plain JavaScript Error (a network failure, a database failure),
  \<open>MongoError message code\<close> a database error with its numeric code (11000 for a
  duplicate key), and \<open>NonError\<close> any thrown value that is not an Error.
\<close>

datatype js_error =
    AppError string int string
  | QuotaExceededError string int
  | ValidationError string string
  | SubscriptionError string
  | Error string
  | MongoError string int
  | NonError

definition isError :: "js_error \<Rightarrow> bool" where
  "isError e = (e \<noteq> NonError)"

definition isAppError :: "js_error \<Rightarrow> bool" where
  "isAppError e = (case e of
       AppError m s c \<Rightarrow> True
     | QuotaExceededError m r \<Rightarrow> True
     | ValidationError m f \<Rightarrow> True
     | SubscriptionError m \<Rightarrow> True
     | Error m \<Rightarrow> False
     | MongoError m c \<Rightarrow> False
     | NonError \<Rightarrow> False)"

definition errMessage :: "js_error \<Rightarrow> string option" where
  "errMessage e = (case e of
       AppError m s c \<Rightarrow> Some m
     | QuotaExceededError m r \<Rightarrow> Some m
     | ValidationError m f \<Rightarrow> Some m
     | SubscriptionError m \<Rightarrow> Some m
     | Error m \<Rightarrow> Some m
     | MongoError m c \<Rightarrow> Some m
     | NonError \<Rightarrow> None)"

section \<open>The environment: missing declarations and scripted collaborators\<close>

record cost_options =
  co_quality :: "string option"
  co_batchSize :: int
  co_aspectRatio :: "string option"
  co_style :: "string option"

record validation_result =
  valid :: bool
  errors :: "string list"

text \<open>
  The outcome of an HTTP request: the request (or the reading of its body) fails with a
  thrown value, or a response arrives with its status, the error text read from it
  (the \<open>message\<close> of the error body, else the status text) and its parsed data
  (the \<open>data\<close> member of the body when there is one, else the body).
\<close>

datatype 'a http_response =
    Rejects js_error
  | Response int string 'a

definition ok :: "int \<Rightarrow> bool" where
  "ok status = (200 \<le> status \<and> status \<le> 299)"

record submit_data =
  sd_image_url :: "string option"
  sd_task_id :: "string option"
  sd_id :: "string option"
  sd_generation_id :: "string option"

text \<open>An entry of \<open>generated\<close>: a URL string, or an object with the members \<open>url\<close>, \<open>image_url\<close>, \<open>image\<close>.\<close>

datatype gen_item =
    GenUrl string
  | GenObj "string option" "string option" "string option"

record poll_data =
  pd_status :: string
  pd_generated :: "gen_item list"
  pd_image_url :: "string option"
  pd_error :: "string option"

record video_poll_data =
  vd_status :: string
  vd_video_url :: "string option"
  vd_url :: "string option"
  vd_video :: "string option"
  vd_output :: "string list"
  vd_generated :: "string list"
  vd_error :: "string option"
  vd_error_message :: "string option"
  vd_message :: "string option"
  vd_errors :: "string list option"

text \<open>
  The outcome of the POST of VideoGenerationService: an axios error with the message of
  the response body, if any, and its own message; another thrown value; or the task id
  and status of the accepted job.
\<close>

datatype axios_outcome =
    AxiosFails "string option" string
  | OtherFails js_error
  | AxiosOk string string

record download_data =
  content_type :: "string option"
  body :: string

record upload_raw =
  public_id :: "string option"
  secure_url :: "string option"
  raw_width :: "int option"
  raw_height :: "int option"
  raw_format :: "string option"
  raw_bytes :: "int option"

text \<open>
  The first eight fields stand for declarations of the repository that are not among the
  sources: the status and error codes of the three AppError subclasses, the cost table
  of QuotaUtils and the image validator of ImageProcessingService. The other fields are
  the answers of the collaborators: \<open>dbFail k\<close> is the error of the \<open>k\<close>-th database
  operation if it fails, \<open>fetchSubmit k\<close> the answer to the \<open>k\<close>-th POST to the image
  endpoint, \<open>fetchPoll k\<close> to the \<open>k\<close>-th status GET, and so on;
  \<open>backoff base k\<close> is the wait of the retry handler after the \<open>k\<close>-th failed attempt.
  \<open>readLocalImage url\<close> stands for the parsing of a local URL and the reading of the
  file behind it (thrown value, no such file, or the bytes), \<open>urlParses\<close> for the
  constructor of URL, \<open>generateThumbnailUrl\<close> for the URL builder of the media-store
  library, \<open>now\<close> for the clock.
\<close>

record env =
  quotaExceededStatus :: int
  quotaExceededCode :: string
  validationStatus :: int
  validationCode :: string
  subscriptionStatus :: int
  subscriptionCode :: string
  calculateGenerationCost :: "string \<Rightarrow> cost_options \<Rightarrow> int"
  validateImage :: "string \<Rightarrow> string \<Rightarrow> string \<Rightarrow> js_error + validation_result"
  dbFail :: "nat \<Rightarrow> js_error option"
  fetchSubmit :: "nat \<Rightarrow> submit_data http_response"
  fetchPoll :: "nat \<Rightarrow> poll_data http_response"
  fetchVideoSubmit :: "nat \<Rightarrow> submit_data http_response"
  fetchVideoPoll :: "nat \<Rightarrow> video_poll_data http_response"
  fetchDownload :: "nat \<Rightarrow> download_data http_response"
  uploadStream :: "nat \<Rightarrow> js_error + upload_raw"
  readLocalImage :: "string \<Rightarrow> js_error + string option"
  urlParses :: "string \<Rightarrow> bool"
  generateThumbnailUrl :: "string option \<Rightarrow> js_error + string"
  backoff :: "nat \<Rightarrow> nat \<Rightarrow> nat"
  axiosPostVideo :: "nat \<Rightarrow> axios_outcome"
  cloudinaryConfigured :: bool
  apiKey :: string
  now :: nat

definition statusCode :: "env \<Rightarrow> js_error \<Rightarrow> int option" where
  "statusCode E e = (case e of
       AppError m s c \<Rightarrow> Some s
     | QuotaExceededError m r \<Rightarrow> Some (quotaExceededStatus E)
     | ValidationError m f \<Rightarrow> Some (validationStatus E)
     | SubscriptionError m \<Rightarrow> Some (subscriptionStatus E)
     | Error m \<Rightarrow> None
     | MongoError m c \<Rightarrow> None
     | NonError \<Rightarrow> None)"

definition errorCode :: "env \<Rightarrow> js_error \<Rightarrow> string option" where
  "errorCode E e = (case e of
       AppError m s c \<Rightarrow> Some c
     | QuotaExceededError m r \<Rightarrow> Some (quotaExceededCode E)
     | ValidationError m f \<Rightarrow> Some (validationCode E)
     | SubscriptionError m \<Rightarrow> Some (subscriptionCode E)
     | Error m \<Rightarrow> None
     | MongoError m c \<Rightarrow> None
     | NonError \<Rightarrow> None)"

section \<open>The world: database and call counters\<close>

record user =
  isActive :: bool
  monthlyUsage :: int
  userTier :: string

record output_image =
  o_url :: string
  o_width :: int
  o_height :: int
  o_format :: string
  o_fileSize :: int
  o_storageKey :: "string option"
  o_thumbnailUrl :: "string option"
  o_publicId :: "string option"
  o_secureUrl :: string
  o_cloudinaryUrl :: string
  o_bytes :: int

record generation =
  g_userId :: string
  g_type :: string
  status :: string
  g_prompt :: "string option"
  g_quality :: "string option"
  inputImages :: "string list"
  outputImages :: "output_image list"
  cost :: int
  credits :: int
  errorMessage :: "string option"

record world =
  users :: "string \<Rightarrow> user option"
  generations :: "generation list"
  dbOps :: nat
  submitCalls :: nat
  pollCalls :: nat
  videoSubmitCalls :: nat
  videoPollCalls :: nat
  downloadCalls :: nat
  uploadCalls :: nat
  slept :: "nat list"

type_synonym 'a comp = "world \<Rightarrow> (js_error + 'a) \<times> world"

definition sleep :: "nat \<Rightarrow> world \<Rightarrow> world" where
  "sleep ms w = w\<lparr>slept := slept w @ [ms]\<rparr>"

definition dbOp :: "env \<Rightarrow> world \<Rightarrow> js_error option \<times> world" where
  "dbOp E w = (dbFail E (dbOps w), w\<lparr>dbOps := Suc (dbOps w)\<rparr>)"

definition findByClerkId :: "env \<Rightarrow> string \<Rightarrow> user option comp" where
  "findByClerkId E uid w = (case dbOp E w of
       (Some e, w') \<Rightarrow> (Inl e, w')
     | (None, w') \<Rightarrow> (Inr (users w' uid), w'))"

definition saveUser :: "env \<Rightarrow> string \<Rightarrow> user \<Rightarrow> unit comp" where
  "saveUser E uid u w = (case dbOp E w of
       (Some e, w') \<Rightarrow> (Inl e, w')
     | (None, w') \<Rightarrow> (Inr (), w'\<lparr>users := (users w')(uid \<mapsto> u)\<rparr>))"

definition insertGeneration :: "env \<Rightarrow> generation \<Rightarrow> nat comp" where
  "insertGeneration E g w = (case dbOp E w of
       (Some e, w') \<Rightarrow> (Inl e, w')
     | (None, w') \<Rightarrow> (Inr (length (generations w')), w'\<lparr>generations := generations w' @ [g]\<rparr>))"

definition saveGeneration :: "env \<Rightarrow> nat \<Rightarrow> generation \<Rightarrow> unit comp" where
  "saveGeneration E gid g w = (case dbOp E w of
       (Some e, w') \<Rightarrow> (Inl e, w')
     | (None, w') \<Rightarrow> (Inr (), w'\<lparr>generations := (generations w')[gid := g]\<rparr>))"

section \<open>FreepikImageService: polling for the result\<close>

record poll_result =
  r_image_url :: "string option"
  r_url :: "string option"
  r_image :: "string option"

definition firstImageResult :: "gen_item \<Rightarrow> poll_result" where
  "firstImageResult item = (case item of
       GenUrl s \<Rightarrow> \<lparr>r_image_url = Some s, r_url = None, r_image = None\<rparr>
     | GenObj u i im \<Rightarrow>
         \<lparr>r_image_url = (case i of None \<Rightarrow> jsOr u im | Some v \<Rightarrow> Some v),
          r_url = u, r_image = im\<rparr>)"

definition pollStep :: "poll_data \<Rightarrow> (js_error + poll_result) option" where
  "pollStep d =
     (if pd_status d = ''COMPLETED'' \<or> pd_status d = ''completed'' then
        (case pd_generated d of
           item # rest \<Rightarrow> Some (Inr (firstImageResult item))
         | [] \<Rightarrow>
            if truthy (pd_image_url d)
            then Some (Inr \<lparr>r_image_url = pd_image_url d, r_url = None, r_image = None\<rparr>)
            else Some (Inl (AppError ''Generation completed but no images were produced''
                              500 ''NO_IMAGES_GENERATED'')))
      else if pd_status d = ''FAILED'' \<or> pd_status d = ''failed'' then
        Some (Inl (AppError (''Image generation failed: '' @ orString (pd_error d) ''Unknown error'')
                     500 ''FREEPIK_GENERATION_FAILED''))
      else None)"

text \<open>
  The loop \<open>for (attempt = 0; attempt < maxAttempts; attempt++)\<close>: the argument counts the
  attempts that remain. Each round waits 2000 ms, then asks for the status.
\<close>

fun pollGenerationLoop :: "env \<Rightarrow> nat \<Rightarrow> poll_result comp" where
  "pollGenerationLoop E 0 w =
     (Inl (AppError ''Image generation timed out after 60 seconds'' 408 ''FREEPIK_TIMEOUT''), w)"
| "pollGenerationLoop E (Suc n) w =
     (let w1 = sleep 2000 w;
          w2 = w1\<lparr>pollCalls := Suc (pollCalls w1)\<rparr>
      in case fetchPoll E (pollCalls w1) of
           Rejects e \<Rightarrow> (Inl e, w2)
         | Response st txt d \<Rightarrow>
             if \<not> ok st then
               (Inl (AppError (''Freepik API polling error: '' @ txt) st ''FREEPIK_POLL_ERROR''), w2)
             else (case pollStep d of
                     Some r \<Rightarrow> (r, w2)
                   | None \<Rightarrow> pollGenerationLoop E n w2))"

definition pollGenerationResult :: "env \<Rightarrow> string \<Rightarrow> nat \<Rightarrow> poll_result comp" where
  "pollGenerationResult E generationId maxAttempts = pollGenerationLoop E maxAttempts"

record video_result =
  v_video_url :: string
  v_status :: string

definition videoUrlOf :: "video_poll_data \<Rightarrow> string option" where
  "videoUrlOf d =
     jsOr (jsOr (jsOr (jsOr (vd_video_url d) (vd_url d)) (vd_video d))
             (case vd_output d of [] \<Rightarrow> None | x # xs \<Rightarrow> Some x))
          (case vd_generated d of [] \<Rightarrow> None | x # xs \<Rightarrow> Some x)"

definition joinComma :: "string list \<Rightarrow> string" where
  "joinComma xs = (case xs of [] \<Rightarrow> [] | y # ys \<Rightarrow> foldl (\<lambda>acc s. acc @ '', '' @ s) y ys)"

text \<open>
  The message of a failed video job: the first of \<open>error\<close>, \<open>error_message\<close>,
  \<open>message\<close> and \<open>errors\<close> that is present, else the long help text of the source,
  which is shortened here to its first and last line.
\<close>

definition videoFailureMessage :: "string \<Rightarrow> video_poll_data \<Rightarrow> string" where
  "videoFailureMessage taskId d =
     (if truthy (vd_error d) then ''Video generation failed: '' @ the (vd_error d)
      else if truthy (vd_error_message d) then ''Video generation failed: '' @ the (vd_error_message d)
      else if truthy (vd_message d) then ''Video generation failed: '' @ the (vd_message d)
      else (case vd_errors d of
              Some es \<Rightarrow> ''Video generation failed: '' @ joinComma es
            | None \<Rightarrow> ''Video generation failed. Common reasons: (see the provider dashboard) Task ID for support: '' @ taskId))"

definition videoPollStep :: "string \<Rightarrow> video_poll_data \<Rightarrow> (js_error + video_result) option" where
  "videoPollStep taskId d =
     (if vd_status d = ''COMPLETED'' \<or> vd_status d = ''completed'' then
        (if truthy (videoUrlOf d)
         then Some (Inr \<lparr>v_video_url = the (videoUrlOf d), v_status = vd_status d\<rparr>)
         else Some (Inl (AppError ''Video generation completed but no video URL was returned''
                           500 ''NO_VIDEO_URL'')))
      else if vd_status d = ''FAILED'' \<or> vd_status d = ''failed'' then
        Some (Inl (AppError (videoFailureMessage taskId d) 500 ''FREEPIK_VIDEO_GENERATION_FAILED''))
      else None)"

fun pollVideoGenerationLoop :: "env \<Rightarrow> string \<Rightarrow> nat \<Rightarrow> video_result comp" where
  "pollVideoGenerationLoop E taskId 0 w =
     (Inl (AppError ''Video generation timed out after 2 minutes'' 408 ''FREEPIK_VIDEO_TIMEOUT''), w)"
| "pollVideoGenerationLoop E taskId (Suc n) w =
     (let w1 = sleep 2000 w;
          w2 = w1\<lparr>videoPollCalls := Suc (videoPollCalls w1)\<rparr>
      in case fetchVideoPoll E (videoPollCalls w1) of
           Rejects e \<Rightarrow> (Inl e, w2)
         | Response st txt d \<Rightarrow>
             if \<not> ok st then
               (Inl (AppError (''Freepik video API polling error: '' @ txt) st
                       ''FREEPIK_VIDEO_POLL_ERROR''), w2)
             else (case videoPollStep taskId d of
                     Some r \<Rightarrow> (r, w2)
                   | None \<Rightarrow> pollVideoGenerationLoop E taskId n w2))"

definition pollVideoGenerationResult :: "env \<Rightarrow> string \<Rightarrow> nat \<Rightarrow> video_result comp" where
  "pollVideoGenerationResult E taskId maxAttempts = pollVideoGenerationLoop E taskId maxAttempts"

section \<open>CloudinaryService.uploadImage and FreepikImageService.uploadToCloudinary\<close>

record upload_result =
  u_success :: bool
  u_publicId :: "string option"
  u_secureUrl :: "string option"
  u_width :: "int option"
  u_height :: "int option"
  u_format :: "string option"
  u_bytes :: "int option"
  u_error :: "string option"

definition uploadFailed :: "string \<Rightarrow> upload_result" where
  "uploadFailed msg =
     \<lparr>u_success = False, u_publicId = None, u_secureUrl = None, u_width = None,
      u_height = None, u_format = None, u_bytes = None, u_error = Some msg\<rparr>"

text \<open>\<open>uploadImage\<close> catches the failure of the upload stream: it never throws.\<close>

definition uploadImage :: "env \<Rightarrow> world \<Rightarrow> upload_result \<times> world" where
  "uploadImage E w =
     (if \<not> cloudinaryConfigured E then
        (uploadFailed ''Cloudinary is not configured. Please check environment variables.'', w)
      else
        (let w' = w\<lparr>uploadCalls := Suc (uploadCalls w)\<rparr>
         in case uploadStream E (uploadCalls w) of
              Inl e \<Rightarrow>
                (uploadFailed (case errMessage e of Some m \<Rightarrow> m | None \<Rightarrow> ''Failed to upload image''), w')
            | Inr raw \<Rightarrow>
                (\<lparr>u_success = True, u_publicId = public_id raw, u_secureUrl = secure_url raw,
                  u_width = raw_width raw, u_height = raw_height raw, u_format = raw_format raw,
                  u_bytes = raw_bytes raw, u_error = None\<rparr>, w')))"

record cloud_result =
  c_url :: string
  c_secureUrl :: string
  c_publicId :: "string option"
  c_format :: string
  c_width :: int
  c_height :: int
  c_bytes :: int

text \<open>The catch branch of \<open>uploadToCloudinary\<close>: the provider's own URL, with placeholder metadata.\<close>

definition directUrlFallback :: "env \<Rightarrow> string \<Rightarrow> cloud_result" where
  "directUrlFallback E imageUrl =
     \<lparr>c_url = imageUrl, c_secureUrl = imageUrl,
      c_publicId = Some (''freepik_'' @ showNat (now E)),
      c_format = ''jpeg'', c_width = 1024, c_height = 1024, c_bytes = 0\<rparr>"

definition uploadToCloudinary :: "env \<Rightarrow> string \<Rightarrow> world \<Rightarrow> cloud_result \<times> world" where
  "uploadToCloudinary E imageUrl w =
     (let w1 = w\<lparr>downloadCalls := Suc (downloadCalls w)\<rparr>
      in case fetchDownload E (downloadCalls w) of
           Rejects e \<Rightarrow> (directUrlFallback E imageUrl, w1)
         | Response st txt d \<Rightarrow>
             if \<not> ok st then (directUrlFallback E imageUrl, w1)
             else (case uploadImage E w1 of (r, w2) \<Rightarrow>
                     if \<not> u_success r \<or> \<not> truthy (u_secureUrl r)
                     then (directUrlFallback E imageUrl, w2)
                     else (\<lparr>c_url = the (u_secureUrl r), c_secureUrl = the (u_secureUrl r),
                            c_publicId = u_publicId r,
                            c_format = orString (u_format r) ''jpeg'',
                            c_width = orInt (u_width r) 1024,
                            c_height = orInt (u_height r) 1024,
                            c_bytes = orInt (u_bytes r) 0\<rparr>, w2)))"

section \<open>FreepikImageService.textToImage, imageToImage and imageToVideo\<close>

record gen_request =
  prompt :: "string option"
  quality :: "string option"
  batchSize :: "int option"
  aspectRatio :: "string option"
  style :: "string option"
  negativePrompt :: "string option"
  numberOfImages :: "int option"
  req_subscriptionTier :: string
  req_userId :: string

record image =
  img_id :: "string option"
  url :: string
  secureUrl :: string
  publicId :: "string option"
  width :: int
  height :: int
  format :: string
  bytes :: int
  size :: int
  cloudinaryUrl :: string
  originalUrl :: string
  thumbnailUrl :: "string option"
  img_data :: "string option"
  processedAt :: "nat option"
  tier :: "string option"
  processingError :: "string option"

record freepik_response =
  fr_images :: "image list"
  fr_creditsUsed :: int

definition handleFreepikError :: "env \<Rightarrow> js_error \<Rightarrow> js_error" where
  "handleFreepikError E e =
     (if isAppError e then e
      else
        (let msg = orString (errMessage e) ''Freepik image generation failed''
         in if strIncludes msg ''API key'' then AppError ''Invalid Freepik API key'' 401 ''INVALID_API_KEY''
            else if strIncludes msg ''quota'' \<or> strIncludes msg ''limit''
              then AppError ''Freepik API quota exceeded'' 429 ''QUOTA_EXCEEDED''
            else if strIncludes msg ''timeout'' then AppError ''Image generation timed out'' 408 ''TIMEOUT''
            else AppError msg 500 ''FREEPIK_ERROR''))"

text \<open>
  \<open>calculateCreditsUsed\<close>: 1, times 1.5 for hd, times 2 for ultra, times \<open>0.9 * batch\<close> for
  a batch above one, rounded up. The arithmetic is done in two-hundredths.
\<close>

definition calculateCreditsUsed :: "gen_request \<Rightarrow> int" where
  "calculateCreditsUsed request =
     (let q = (if quality request = Some ''hd'' then 30
               else if quality request = Some ''ultra'' then 40 else (20::int));
          b = orInt (numberOfImages request) 1;
          units = (if b > 1 then q * b * 9 else q * 10)
      in (units + 199) div 200)"

definition toImageData :: "env \<Rightarrow> string \<Rightarrow> cloud_result \<Rightarrow> image" where
  "toImageData E imageUrl c =
     \<lparr>img_id = c_publicId c,
      url = (if c_secureUrl c \<noteq> [] then c_secureUrl c else c_url c),
      secureUrl = (if c_secureUrl c \<noteq> [] then c_secureUrl c else c_url c),
      publicId = c_publicId c,
      width = (if c_width c = 0 then 1024 else c_width c),
      height = (if c_height c = 0 then 1024 else c_height c),
      format = (if c_format c = [] then ''png'' else c_format c),
      bytes = c_bytes c,
      size = c_bytes c,
      cloudinaryUrl = c_url c,
      originalUrl = imageUrl,
      thumbnailUrl = None,
      img_data = None,
      processedAt = None,
      tier = None,
      processingError = None\<rparr>"

text \<open>
  The first half of the \<open>try\<close> of \<open>textToImage\<close>: the submission and, when it
  carries no image, the polling; it yields the provider's URL of the generated image.
\<close>

definition requestImageUrl :: "env \<Rightarrow> gen_request \<Rightarrow> string comp" where
  "requestImageUrl E request w =
     (case prompt request of
        None \<Rightarrow> (Inl (Error ''Cannot read properties of undefined (reading substring)''), w)
      | Some p \<Rightarrow>
         (let w1 = w\<lparr>submitCalls := Suc (submitCalls w)\<rparr>
          in case fetchSubmit E (submitCalls w) of
               Rejects e \<Rightarrow> (Inl e, w1)
             | Response st txt d \<Rightarrow>
                 if \<not> ok st then
                   (Inl (AppError (''Freepik API error: '' @ txt) st ''FREEPIK_API_ERROR''), w1)
                 else if truthy (sd_image_url d) then (Inr (the (sd_image_url d)), w1)
                 else if truthy (jsOr (jsOr (sd_task_id d) (sd_id d)) (sd_generation_id d)) then
                   (case pollGenerationResult E
                           (the (jsOr (jsOr (sd_task_id d) (sd_id d)) (sd_generation_id d))) 30 w1 of
                      (Inl e, w2) \<Rightarrow> (Inl e, w2)
                    | (Inr g, w2) \<Rightarrow>
                        if truthy (jsOr (jsOr (r_image_url g) (r_url g)) (r_image g))
                        then (Inr (the (jsOr (jsOr (r_image_url g) (r_url g)) (r_image g))), w2)
                        else (Inl (AppError ''Generation completed but no image URL was returned''
                                     500 ''NO_IMAGE_URL''), w2))
                 else (Inl (AppError
                              ''Invalid response from Freepik API - no image URL or task ID provided''
                              500 ''INVALID_FREEPIK_RESPONSE''), w1)))"

text \<open>The second half: the upload to the media store, which cannot fail, and the answer.\<close>

definition textToImageBody :: "env \<Rightarrow> gen_request \<Rightarrow> freepik_response comp" where
  "textToImageBody E request w =
     (case requestImageUrl E request w of
        (Inl e, w3) \<Rightarrow> (Inl e, w3)
      | (Inr imageUrl, w3) \<Rightarrow>
          (case uploadToCloudinary E imageUrl w3 of (c, w4) \<Rightarrow>
             (Inr \<lparr>fr_images = [toImageData E imageUrl c],
                   fr_creditsUsed = calculateCreditsUsed request\<rparr>, w4)))"

definition textToImage :: "env \<Rightarrow> gen_request \<Rightarrow> freepik_response comp" where
  "textToImage E request w =
     (case textToImageBody E request w of
        (Inl e, w') \<Rightarrow> (Inl (handleFreepikError E e), w')
      | (Inr r, w') \<Rightarrow> (Inr r, w'))"

definition templ :: "string option \<Rightarrow> string" where
  "templ a = (case a of None \<Rightarrow> ''undefined'' | Some s \<Rightarrow> s)"

definition imageToImage :: "env \<Rightarrow> gen_request \<Rightarrow> freepik_response comp" where
  "imageToImage E request =
     textToImage E (request\<lparr>prompt :=
        Some (templ (prompt request) @ ''. Based on reference image, maintain similar composition and style.'')\<rparr>)"

fun splitOn :: "char \<Rightarrow> string \<Rightarrow> string list" where
  "splitOn c [] = [[]]"
| "splitOn c (x # xs) =
     (if x = c then [] # splitOn c xs
      else (case splitOn c xs of [] \<Rightarrow> [[x]] | p # ps \<Rightarrow> (x # p) # ps))"

record video_params =
  vp_imageUrl :: string
  vp_prompt :: "string option"
  vp_negativePrompt :: "string option"
  vp_duration :: "string option"

record video_response =
  vr_taskId :: string
  vr_videoUrl :: string
  vr_status :: string
  vr_duration :: string

text \<open>A \<open>data:image\<close> URL is uploaded to the media store first; its \<open>try\<close> rewraps every failure.\<close>

definition prepareBase64Image :: "env \<Rightarrow> string \<Rightarrow> string comp" where
  "prepareBase64Image E imageUrl w =
     (case (case splitOn CHR '','' imageUrl of
              [a, b] \<Rightarrow>
                if b = [] then (Inl (Error ''Invalid base64 image format''), w)
                else (case uploadImage E w of (r, w1) \<Rightarrow>
                        if \<not> u_success r \<or> \<not> truthy (u_secureUrl r)
                        then (Inl (AppError ''Failed to upload base64 image to Cloudinary'' 500
                                     ''CLOUDINARY_UPLOAD_FAILED''), w1)
                        else (Inr (the (u_secureUrl r)), w1))
            | _ \<Rightarrow> (Inl (Error ''Invalid base64 image format''), w)) of
        (Inl e, w') \<Rightarrow>
          (Inl (AppError (''Failed to process base64 image: '' @ templ (errMessage e)) 500
                  ''BASE64_UPLOAD_FAILED''), w')
      | (Inr u, w') \<Rightarrow> (Inr u, w'))"

text \<open>Any other URL is parsed and fetched once, to check that it is an image.\<close>

definition validateImageUrl :: "env \<Rightarrow> string \<Rightarrow> string comp" where
  "validateImageUrl E imageUrl w =
     (case (if \<not> urlParses E imageUrl then (Inl (Error ''Invalid URL''), w)
            else
              (let w1 = w\<lparr>downloadCalls := Suc (downloadCalls w)\<rparr>
               in case fetchDownload E (downloadCalls w) of
                    Rejects e \<Rightarrow> (Inl e, w1)
                  | Response st txt d \<Rightarrow>
                      if \<not> ok st then
                        (Inl (AppError (''Image URL is not accessible: '' @ showInt st @ '' '' @ txt) 400
                                ''IMAGE_URL_NOT_ACCESSIBLE''), w1)
                      else if \<not> truthy (content_type d) \<or> \<not> startsWith (the (content_type d)) ''image/''
                        then (Inl (AppError
                                ''Invalid image URL. The URL must point directly to an image file (e.g., .jpg, .png). Please use a direct image URL, not a search result or webpage.''
                                400 ''INVALID_IMAGE_TYPE''), w1)
                      else (Inr imageUrl, w1))) of
        (Inl e, w') \<Rightarrow>
          (if isAppError e then (Inl e, w')
           else (Inl (AppError
                   ''Invalid image URL format. Please provide a valid HTTP(S) URL pointing directly to an image file.''
                   400 ''INVALID_URL_FORMAT''), w'))
      | (Inr u, w') \<Rightarrow> (Inr u, w'))"

definition videoApiErrorMessage :: "int \<Rightarrow> string \<Rightarrow> string" where
  "videoApiErrorMessage st txt = ''Freepik API error: '' @
     (if st = 401 then ''Invalid API key. Please check your FREEPIK_API_KEY environment variable.''
      else if st = 402 then ''Insufficient credits or quota exceeded. Please check your Freepik account.''
      else if st = 429 then ''Rate limit exceeded. Please wait a moment and try again.''
      else txt)"

definition imageToVideoBody :: "env \<Rightarrow> video_params \<Rightarrow> video_response comp" where
  "imageToVideoBody E params w =
     (if apiKey E = [] then
        (Inl (AppError ''Freepik API key is not configured. Please check your environment variables.''
                500 ''MISSING_API_KEY''), w)
      else if vp_imageUrl params = [] then
        (Inl (AppError ''Invalid or missing image URL'' 400 ''INVALID_IMAGE_URL''), w)
      else
        (case (if startsWith (vp_imageUrl params) ''data:image''
               then prepareBase64Image E (vp_imageUrl params) w
               else validateImageUrl E (vp_imageUrl params) w) of
           (Inl e, w1) \<Rightarrow> (Inl e, w1)
         | (Inr imageToSend, w1) \<Rightarrow>
            (let w2 = w1\<lparr>videoSubmitCalls := Suc (videoSubmitCalls w1)\<rparr>
             in case fetchVideoSubmit E (videoSubmitCalls w1) of
                  Rejects e \<Rightarrow> (Inl e, w2)
                | Response st txt d \<Rightarrow>
                    if \<not> ok st then
                      (Inl (AppError (videoApiErrorMessage st txt) st ''FREEPIK_VIDEO_API_ERROR''), w2)
                    else if \<not> truthy (jsOr (jsOr (sd_task_id d) (sd_id d)) (sd_generation_id d)) then
                      (Inl (AppError ''No task ID returned from Freepik video API'' 500 ''NO_TASK_ID''), w2)
                    else
                      (let taskId = the (jsOr (jsOr (sd_task_id d) (sd_id d)) (sd_generation_id d))
                       in case pollVideoGenerationResult E taskId 60 w2 of
                            (Inl e, w3) \<Rightarrow> (Inl e, w3)
                          | (Inr v, w3) \<Rightarrow>
                              (Inr \<lparr>vr_taskId = taskId, vr_videoUrl = v_video_url v,
                                    vr_status = v_status v,
                                    vr_duration = orString (vp_duration params) ''5''\<rparr>, w3)))))"

definition imageToVideo :: "env \<Rightarrow> video_params \<Rightarrow> video_response comp" where
  "imageToVideo E params w =
     (case imageToVideoBody E params w of
        (Inl e, w') \<Rightarrow> (Inl (handleFreepikError E e), w')
      | (Inr r, w') \<Rightarrow> (Inr r, w'))"

section \<open>RetryHandler.withRetry\<close>

text \<open>
  Modelled from the spec: \<open>RetryHandler.withRetry\<close> of utils/imageGenerationErrors is
  not among the sources. The specification gives its policy: up to \<open>maxAttempts\<close> attempts
  in total, a wait derived from the base delay between attempts, a retry only after a
  transient failure (network error, 5xx, timeout, 429); a failure that is not transient
  ends at once with reason \<open>ProviderRejected\<close>, and the last transient failure ends with
  reason \<open>ProviderUnavailable\<close>.
\<close>

definition retryable :: "env \<Rightarrow> js_error \<Rightarrow> bool" where
  "retryable E e = (case statusCode E e of
       None \<Rightarrow> e \<noteq> NonError
     | Some st \<Rightarrow> st = 408 \<or> st = 429 \<or> (500 \<le> st \<and> st \<le> 599))"

definition asReason :: "env \<Rightarrow> string \<Rightarrow> js_error \<Rightarrow> js_error" where
  "asReason E reason e =
     AppError (orString (errMessage e) ''Provider call failed'')
              (case statusCode E e of None \<Rightarrow> 500 | Some st \<Rightarrow> st) reason"

fun withRetryLoop :: "env \<Rightarrow> 'a comp \<Rightarrow> nat \<Rightarrow> nat \<Rightarrow> nat \<Rightarrow> 'a comp" where
  "withRetryLoop E operation baseDelay k 0 w =
     (Inl (AppError ''Provider call failed'' 500 ''ProviderUnavailable''), w)"
| "withRetryLoop E operation baseDelay k (Suc n) w =
     (case operation w of
        (Inr x, w') \<Rightarrow> (Inr x, w')
      | (Inl e, w') \<Rightarrow>
          if \<not> retryable E e then (Inl (asReason E ''ProviderRejected'' e), w')
          else if n = 0 then (Inl (asReason E ''ProviderUnavailable'' e), w')
          else withRetryLoop E operation baseDelay (Suc k) n (sleep (backoff E baseDelay k) w'))"

definition withRetry :: "env \<Rightarrow> 'a comp \<Rightarrow> nat \<Rightarrow> nat \<Rightarrow> 'a comp" where
  "withRetry E operation maxAttempts baseDelay = withRetryLoop E operation baseDelay 1 maxAttempts"

section \<open>ImageGenerationOrchestrator\<close>

record quota_info =
  remaining :: int
  resetDate :: "nat option"

record generation_context =
  userId :: string
  subscriptionTier :: string
  quotaInfo :: quota_info
  subscriptionInfoIsActive :: bool
  request :: gen_request

record capabilities =
  availableQualities :: "string list"
  maxBatchSize :: int

definition getModelCapabilities :: "string \<Rightarrow> capabilities" where
  "getModelCapabilities t =
     (if t = ''plus'' then \<lparr>availableQualities = [''standard'', ''hd''], maxBatchSize = 3\<rparr>
      else if t = ''pro'' then \<lparr>availableQualities = [''standard'', ''hd'', ''ultra''], maxBatchSize = 5\<rparr>
      else \<lparr>availableQualities = [''standard''], maxBatchSize = 1\<rparr>)"

definition executeWithRetry :: "env \<Rightarrow> 'a comp \<Rightarrow> 'a comp" where
  "executeWithRetry E operation = withRetry E operation 3 1000"

definition validateGenerationContext :: "env \<Rightarrow> generation_context \<Rightarrow> unit comp" where
  "validateGenerationContext E ctx w =
     (case findByClerkId E (userId ctx) w of
        (Inl e, w') \<Rightarrow> (Inl e, w')
      | (Inr u, w') \<Rightarrow>
         (let caps = getModelCapabilities (subscriptionTier ctx);
              p = prompt (request ctx)
          in if (case u of None \<Rightarrow> True | Some usr \<Rightarrow> \<not> isActive usr) then
               (Inl (ValidationError ''User not found or inactive'' ''userId''), w')
             else if \<not> subscriptionInfoIsActive ctx \<and> subscriptionTier ctx \<noteq> ''free'' then
               (Inl (SubscriptionError ''Subscription is not active''), w')
             else if \<not> truthy p \<or> trim (the p) = [] then
               (Inl (ValidationError ''Prompt is required and cannot be empty'' ''prompt''), w')
             else if length (the p) > 2000 then
               (Inl (ValidationError ''Prompt exceeds maximum length of 2000 characters'' ''prompt''), w')
             else if (case quality (request ctx) of
                        None \<Rightarrow> True | Some q \<Rightarrow> q \<notin> set (availableQualities caps)) then
               (Inl (ValidationError
                       (''Quality '' @ [CHR 0x27] @ templ (quality (request ctx)) @ [CHR 0x27]
                          @ '' not available for ''
                          @ subscriptionTier ctx @ '' tier'') ''quality''), w')
             else if orInt (batchSize (request ctx)) 0 > maxBatchSize caps then
               (Inl (ValidationError
                       (''Batch size '' @ showInt (orInt (batchSize (request ctx)) 0)
                          @ '' exceeds limit of '' @ showInt (maxBatchSize caps) @ '' for ''
                          @ subscriptionTier ctx @ '' tier'') ''batchSize''), w')
             else (Inr (), w')))"

definition createGenerationRecord :: "env \<Rightarrow> generation_context \<Rightarrow> string \<Rightarrow> (nat \<times> generation) comp" where
  "createGenerationRecord E ctx type w =
     (let q = (if quality (request ctx) = Some ''ultra'' then Some ''hd'' else quality (request ctx));
          costOptions = \<lparr>co_quality = q,
                         co_batchSize = orInt (batchSize (request ctx)) 1,
                         co_aspectRatio = aspectRatio (request ctx),
                         co_style = (if truthy (style (request ctx)) then style (request ctx) else None)\<rparr>;
          c = calculateGenerationCost E type costOptions;
          g = \<lparr>g_userId = userId ctx, g_type = type, status = ''pending'',
               g_prompt = prompt (request ctx), g_quality = q, inputImages = [],
               outputImages = [], cost = c, credits = c, errorMessage = None\<rparr>
      in case insertGeneration E g w of
           (Inl e, w') \<Rightarrow> (Inl e, w')
         | (Inr gid, w') \<Rightarrow> (Inr (gid, g), w'))"

record quota_result =
  q_success :: bool
  q_message :: "string option"
  q_remaining :: "int option"
  q_resetDate :: "nat option"

definition quotaFailure :: "string \<Rightarrow> quota_result" where
  "quotaFailure msg =
     \<lparr>q_success = False, q_message = Some msg, q_remaining = None, q_resetDate = None\<rparr>"

definition insufficientQuotaMessage :: "int \<Rightarrow> int \<Rightarrow> string" where
  "insufficientQuotaMessage need have =
     ''Insufficient quota. Need '' @ showInt need @ '' credits, have '' @ showInt have"

text \<open>
  \<open>validateAndConsumeQuota\<close> returns its verdict and the record object as it has left it in
  memory; every failure of the database inside it is caught.
\<close>

definition validateAndConsumeQuota ::
  "env \<Rightarrow> generation_context \<Rightarrow> nat \<Rightarrow> generation \<Rightarrow> world \<Rightarrow> (quota_result \<times> generation) \<times> world" where
  "validateAndConsumeQuota E ctx gid g w =
     (let creditsNeeded = credits g
      in if remaining (quotaInfo ctx) < creditsNeeded then
           ((\<lparr>q_success = False,
              q_message = Some (insufficientQuotaMessage creditsNeeded (remaining (quotaInfo ctx))),
              q_remaining = Some (remaining (quotaInfo ctx)),
              q_resetDate = resetDate (quotaInfo ctx)\<rparr>, g), w)
         else
           (case findByClerkId E (userId ctx) w of
              (Inl e, w1) \<Rightarrow> ((quotaFailure ''Failed to validate/consume quota'', g), w1)
            | (Inr None, w1) \<Rightarrow> ((quotaFailure ''User not found'', g), w1)
            | (Inr (Some usr), w1) \<Rightarrow>
               (case saveUser E (userId ctx)
                       (usr\<lparr>monthlyUsage := monthlyUsage usr + creditsNeeded\<rparr>) w1 of
                  (Inl e, w2) \<Rightarrow> ((quotaFailure ''Failed to validate/consume quota'', g), w2)
                | (Inr u, w2) \<Rightarrow>
                   (let g' = g\<lparr>status := ''processing''\<rparr>
                    in case saveGeneration E gid g' w2 of
                         (Inl e, w3) \<Rightarrow> ((quotaFailure ''Failed to validate/consume quota'', g'), w3)
                       | (Inr u', w3) \<Rightarrow>
                           ((\<lparr>q_success = True, q_message = None, q_remaining = None,
                              q_resetDate = None\<rparr>, g'), w3)))))"

text \<open>
  One round of the loop of \<open>processGeneratedImages\<close>. The upload is tried for an image
  that carries inline data or a local URL; the image is pushed in every case, with the
  media-store URLs when the upload succeeded, unchanged but for the processing stamp
  when it did not, and with \<open>processingError\<close> when the round threw.
\<close>

definition processImage :: "env \<Rightarrow> string \<Rightarrow> image \<Rightarrow> world \<Rightarrow> image \<times> world" where
  "processImage E t im w =
     (case (if truthy (img_data im) then
              (case uploadImage E w of (r, w1) \<Rightarrow> (Some r, w1))
            else if url im \<noteq> [] \<and> strIncludes (url im) ''localhost'' then
              (case readLocalImage E (url im) of
                 Inl e \<Rightarrow> (None, w)
               | Inr None \<Rightarrow> (None, w)
               | Inr (Some buf) \<Rightarrow> (case uploadImage E w of (r, w1) \<Rightarrow> (Some r, w1)))
            else (None, w)) of
        (cr, w1) \<Rightarrow>
          (let processed = im\<lparr>processedAt := Some (now E), tier := Some t\<rparr>
           in case cr of
                None \<Rightarrow> (processed, w1)
              | Some r \<Rightarrow>
                  if \<not> u_success r then (processed, w1)
                  else (case generateThumbnailUrl E (u_publicId r) of
                          Inl e \<Rightarrow>
                            (im\<lparr>processingError :=
                                   Some (case errMessage e of Some m \<Rightarrow> m | None \<Rightarrow> ''Unknown error'')\<rparr>, w1)
                        | Inr th \<Rightarrow>
                            (processed\<lparr>publicId := u_publicId r,
                                       secureUrl := orString (u_secureUrl r) [],
                                       cloudinaryUrl := orString (u_secureUrl r) [],
                                       bytes := orInt (u_bytes r) 0,
                                       url := orString (u_secureUrl r) [],
                                       thumbnailUrl := Some th\<rparr>, w1))))"

fun processGeneratedImages :: "env \<Rightarrow> image list \<Rightarrow> string \<Rightarrow> world \<Rightarrow> image list \<times> world" where
  "processGeneratedImages E [] t w = ([], w)"
| "processGeneratedImages E (im # ims) t w =
     (case processImage E t im w of (p, w1) \<Rightarrow>
        (case processGeneratedImages E ims t w1 of (ps, w2) \<Rightarrow> (p # ps, w2)))"

definition toOutputImage :: "image \<Rightarrow> output_image" where
  "toOutputImage img =
     \<lparr>o_url = url img, o_width = width img, o_height = height img, o_format = format img,
      o_fileSize = (if size img \<noteq> 0 then size img else bytes img),
      o_storageKey = img_id img, o_thumbnailUrl = thumbnailUrl img,
      o_publicId = publicId img, o_secureUrl = secureUrl img,
      o_cloudinaryUrl = cloudinaryUrl img, o_bytes = bytes img\<rparr>"

text \<open>\<open>updateGenerationRecord\<close> assigns the updates to the object and saves it; a failing save is only logged.\<close>

definition updateGenerationRecord ::
  "env \<Rightarrow> nat \<Rightarrow> generation \<Rightarrow> (generation \<Rightarrow> generation) \<Rightarrow> world \<Rightarrow> generation \<times> world" where
  "updateGenerationRecord E gid g updates w =
     (case saveGeneration E gid (updates g) w of
        (Inl e, w') \<Rightarrow> (updates g, w')
      | (Inr u, w') \<Rightarrow> (updates g, w'))"

record gen_error =
  code :: string
  message :: string
  details :: "int option"

record gen_data =
  images :: "image list"
  creditsUsed :: int
  generationRecord :: "nat \<times> generation"

datatype generation_result =
    Success gen_data
  | Failure gen_error

text \<open>The \<open>catch\<close> block shared, word for word, by the four image entry points.\<close>

definition catchGeneration ::
  "env \<Rightarrow> js_error \<Rightarrow> (nat \<times> generation) option \<Rightarrow> generation_result comp" where
  "catchGeneration E e created w =
     (let w' = (case created of
                  None \<Rightarrow> w
                | Some (gid, g) \<Rightarrow>
                    snd (updateGenerationRecord E gid g
                           (\<lambda>r. r\<lparr>status := ''failed'',
                                  errorMessage := Some (case errMessage e of
                                                          Some m \<Rightarrow> m | None \<Rightarrow> ''Unknown error'')\<rparr>) w))
      in (Inr (Failure
            \<lparr>code = (case errorCode E e of Some c \<Rightarrow> c | None \<Rightarrow> ''GENERATION_FAILED''),
             message = (case errMessage e of Some m \<Rightarrow> m | None \<Rightarrow> ''Generation failed''),
             details = statusCode E e\<rparr>), w'))"

text \<open>
  Steps shared by the four entry points once the record exists: consume the quota, call
  the provider under the retry handler, process the images, mark the record completed.
  A thrown value comes back with the record object the \<open>catch\<close> block will see.
\<close>

definition quotaExceededOf :: "quota_result \<Rightarrow> js_error" where
  "quotaExceededOf qr =
     QuotaExceededError (orString (q_message qr) ''Quota exceeded'') (orInt (q_remaining qr) 0)"

definition completeGeneration ::
  "env \<Rightarrow> generation_context \<Rightarrow> nat \<Rightarrow> generation \<Rightarrow> string list option \<Rightarrow> freepik_response
     \<Rightarrow> generation_result comp" where
  "completeGeneration E ctx gid g inputs freepikResponse w =
     (case processGeneratedImages E (fr_images freepikResponse) (subscriptionTier ctx) w of
        (processedImages, w1) \<Rightarrow>
          (case updateGenerationRecord E gid g
                  (\<lambda>r. r\<lparr>status := ''completed'',
                         inputImages := (case inputs of None \<Rightarrow> inputImages r | Some xs \<Rightarrow> xs),
                         outputImages := map toOutputImage processedImages\<rparr>) w1 of
             (g', w2) \<Rightarrow>
               (Inr (Success \<lparr>images = processedImages,
                               creditsUsed = fr_creditsUsed freepikResponse,
                               generationRecord = (gid, g')\<rparr>), w2)))"

definition generateTextToImage :: "env \<Rightarrow> generation_context \<Rightarrow> generation_result comp" where
  "generateTextToImage E ctx w =
     (case validateGenerationContext E ctx w of
        (Inl e, w1) \<Rightarrow> catchGeneration E e None w1
      | (Inr u, w1) \<Rightarrow>
     (case createGenerationRecord E ctx ''text-to-image'' w1 of
        (Inl e, w2) \<Rightarrow> catchGeneration E e None w2
      | (Inr (gid, g), w2) \<Rightarrow>
     (case validateAndConsumeQuota E ctx gid g w2 of
        ((quotaResult, g1), w3) \<Rightarrow>
          if \<not> q_success quotaResult
          then catchGeneration E (quotaExceededOf quotaResult) (Some (gid, g1)) w3
          else
     (case executeWithRetry E (textToImage E (request ctx)) w3 of
        (Inl e, w4) \<Rightarrow> catchGeneration E e (Some (gid, g1)) w4
      | (Inr freepikResponse, w4) \<Rightarrow>
          completeGeneration E ctx gid g1 None freepikResponse w4))))"

definition inputImageInvalid :: "validation_result \<Rightarrow> js_error" where
  "inputImageInvalid v =
     ValidationError (''Input image validation failed: '' @ joinComma (errors v)) ''inputImage''"

definition generateImageToImage ::
  "env \<Rightarrow> generation_context \<Rightarrow> string \<Rightarrow> generation_result comp" where
  "generateImageToImage E ctx inputImage w =
     (case validateImage E inputImage ''input_image'' (subscriptionTier ctx) of
        Inl e \<Rightarrow> catchGeneration E e None w
      | Inr validationResult \<Rightarrow>
          if \<not> valid validationResult
          then catchGeneration E (inputImageInvalid validationResult) None w
          else
     (case validateGenerationContext E ctx w of
        (Inl e, w1) \<Rightarrow> catchGeneration E e None w1
      | (Inr u, w1) \<Rightarrow>
     (case createGenerationRecord E ctx ''image-to-image'' w1 of
        (Inl e, w2) \<Rightarrow> catchGeneration E e None w2
      | (Inr (gid, g), w2) \<Rightarrow>
     (case validateAndConsumeQuota E ctx gid g w2 of
        ((quotaResult, g1), w3) \<Rightarrow>
          if \<not> q_success quotaResult
          then catchGeneration E (quotaExceededOf quotaResult) (Some (gid, g1)) w3
          else
     (case executeWithRetry E (imageToImage E (request ctx)) w3 of
        (Inl e, w4) \<Rightarrow> catchGeneration E e (Some (gid, g1)) w4
      | (Inr freepikResponse, w4) \<Rightarrow>
          completeGeneration E ctx gid g1 (Some [''input_image'']) freepikResponse w4)))))"

text \<open>The loop over the input images of a composition stops at the first one that is refused.\<close>

fun validateInputImages :: "env \<Rightarrow> string \<Rightarrow> nat \<Rightarrow> string list \<Rightarrow> js_error option" where
  "validateInputImages E t index [] = None"
| "validateInputImages E t index (img # rest) =
     (case validateImage E img (''input_image_'' @ showNat index) t of
        Inl e \<Rightarrow> Some e
      | Inr v \<Rightarrow>
          if \<not> valid v then
            Some (ValidationError
                    (''Input image '' @ showNat (index + 1) @ '' validation failed: ''
                       @ joinComma (errors v))
                    (''inputImage'' @ showNat index))
          else validateInputImages E t (Suc index) rest)"

definition generateMultiImageComposition ::
  "env \<Rightarrow> generation_context \<Rightarrow> string list \<Rightarrow> generation_result comp" where
  "generateMultiImageComposition E ctx inputs w =
     (if subscriptionTier ctx = ''free'' then
        catchGeneration E
          (SubscriptionError ''Multi-image composition requires Plus or Pro subscription'') None w
      else
     (case validateInputImages E (subscriptionTier ctx) 0 inputs of
        Some e \<Rightarrow> catchGeneration E e None w
      | None \<Rightarrow>
     (case validateGenerationContext E ctx w of
        (Inl e, w1) \<Rightarrow> catchGeneration E e None w1
      | (Inr u, w1) \<Rightarrow>
     (case createGenerationRecord E ctx ''multi-image'' w1 of
        (Inl e, w2) \<Rightarrow> catchGeneration E e None w2
      | (Inr (gid, g), w2) \<Rightarrow>
     (case validateAndConsumeQuota E
             (ctx\<lparr>request := (request ctx)\<lparr>batchSize := Some (int (length inputs))\<rparr>\<rparr>) gid g w2 of
        ((quotaResult, g1), w3) \<Rightarrow>
          if \<not> q_success quotaResult
          then catchGeneration E (quotaExceededOf quotaResult) (Some (gid, g1)) w3
          else
     (case executeWithRetry E
             (textToImage E ((request ctx)\<lparr>prompt :=
                Some (templ (prompt (request ctx))
                        @ ''. Create a composition combining multiple elements.'')\<rparr>)) w3 of
        (Inl e, w4) \<Rightarrow> catchGeneration E e (Some (gid, g1)) w4
      | (Inr freepikResponse, w4) \<Rightarrow>
          completeGeneration E ctx gid g1
            (Some (map (\<lambda>i. ''input_image_'' @ showNat i) [0..<length inputs]))
            freepikResponse w4))))))"

definition refineImage ::
  "env \<Rightarrow> generation_context \<Rightarrow> string \<Rightarrow> generation_result comp" where
  "refineImage E ctx inputImage w =
     (case validateImage E inputImage ''input_image'' (subscriptionTier ctx) of
        Inl e \<Rightarrow> catchGeneration E e None w
      | Inr validationResult \<Rightarrow>
          if \<not> valid validationResult
          then catchGeneration E (inputImageInvalid validationResult) None w
          else
     (case validateGenerationContext E ctx w of
        (Inl e, w1) \<Rightarrow> catchGeneration E e None w1
      | (Inr u, w1) \<Rightarrow>
     (case createGenerationRecord E ctx ''refine'' w1 of
        (Inl e, w2) \<Rightarrow> catchGeneration E e None w2
      | (Inr (gid, g), w2) \<Rightarrow>
     (case validateAndConsumeQuota E ctx gid g w2 of
        ((quotaResult, g1), w3) \<Rightarrow>
          if \<not> q_success quotaResult
          then catchGeneration E (quotaExceededOf quotaResult) (Some (gid, g1)) w3
          else
     (case executeWithRetry E
             (imageToImage E ((request ctx)\<lparr>prompt :=
                Some (templ (prompt (request ctx)) @ ''. Refine and enhance the image quality.'')\<rparr>)) w3 of
        (Inl e, w4) \<Rightarrow> catchGeneration E e (Some (gid, g1)) w4
      | (Inr freepikResponse, w4) \<Rightarrow>
          completeGeneration E ctx gid g1 (Some [''input_image'']) freepikResponse w4)))))"

text \<open>
  \<open>generateVideo\<close> has no record and no quota step; its \<open>catch\<close> block throws again: an
  AppError as it is, anything else wrapped into an AppError.
\<close>

definition generateVideo :: "env \<Rightarrow> video_params \<Rightarrow> video_response comp" where
  "generateVideo E params w =
     (case (if vp_imageUrl params = [] then
              (Inl (AppError ''Invalid image URL provided'' 400 ''INVALID_IMAGE_URL''), w)
            else
              (case imageToVideo E
                      (params\<lparr>vp_prompt := (if truthy (vp_prompt params) then vp_prompt params else None),
                              vp_negativePrompt := (if truthy (vp_negativePrompt params)
                                                    then vp_negativePrompt params else None),
                              vp_duration := Some (orString (vp_duration params) ''5'')\<rparr>) w of
                 (Inl e, w1) \<Rightarrow> (Inl e, w1)
               | (Inr videoResult, w1) \<Rightarrow>
                   if vr_videoUrl videoResult = [] then
                     (Inl (AppError ''Video URL not returned from generation service'' 500
                             ''NO_VIDEO_URL''), w1)
                   else (Inr videoResult, w1))) of
        (Inl e, w') \<Rightarrow>
          (if isAppError e then (Inl e, w')
           else (Inl (AppError (''Video generation failed: '' @ templ (errMessage e)) 500
                        (case e of MongoError m c \<Rightarrow> showInt c | _ \<Rightarrow> ''VIDEO_GENERATION_ERROR'')),
                 w'))
      | (Inr r, w') \<Rightarrow> (Inr r, w'))"

section \<open>The HTTP layer: ImageGenerationController and the video route\<close>

datatype json =
    JBool bool
  | JString string
  | JNull
  | JImages "image list"
  | JObject "(string \<times> json) list"

record api_response =
  res_status :: int
  res_body :: "(string \<times> json) list"

record http_request =
  auth_userId :: "string option"
  user_id :: "string option"
  b_prompt :: "string option"
  b_aspectRatio :: "string option"
  b_style :: "string option"
  b_quality :: "string option"
  b_negativePrompt :: "string option"
  b_image :: "string option"
  b_duration :: "string option"
  req_quotaInfo :: "quota_info option"

definition newUser :: user where
  "newUser = \<lparr>isActive = True, monthlyUsage = 0, userTier = ''free''\<rparr>"

definition createUser :: "env \<Rightarrow> string \<Rightarrow> user \<Rightarrow> user comp" where
  "createUser E clerkId u w = (case dbOp E w of
       (Some e, w') \<Rightarrow> (Inl e, w')
     | (None, w') \<Rightarrow> (Inr u, w'\<lparr>users := (users w')(clerkId \<mapsto> u)\<rparr>))"

definition ensureUserExists :: "env \<Rightarrow> string \<Rightarrow> user comp" where
  "ensureUserExists E clerkId w =
     (case findByClerkId E clerkId w of
        (Inl e, w1) \<Rightarrow> (Inl e, w1)
      | (Inr (Some u), w1) \<Rightarrow> (Inr u, w1)
      | (Inr None, w1) \<Rightarrow>
          (case createUser E clerkId newUser w1 of
             (Inr u, w2) \<Rightarrow> (Inr u, w2)
           | (Inl e, w2) \<Rightarrow>
               (case e of
                  MongoError m c \<Rightarrow>
                    if c = 11000 then
                      (case findByClerkId E clerkId w2 of
                         (Inl e', w3) \<Rightarrow> (Inl e', w3)
                       | (Inr (Some u), w3) \<Rightarrow> (Inr u, w3)
                       | (Inr None, w3) \<Rightarrow>
                           (Inl (Error ''User creation failed due to duplicate key and user not found''), w3))
                    else (Inl (Error ''Failed to create user record''), w2)
                | _ \<Rightarrow> (Inl (Error ''Failed to create user record''), w2))))"

definition createContext ::
  "env \<Rightarrow> string \<Rightarrow> string \<Rightarrow> gen_request \<Rightarrow> quota_info option \<Rightarrow> generation_context" where
  "createContext E uid t req q =
     \<lparr>userId = uid, subscriptionTier = t,
      quotaInfo = (case q of Some qi \<Rightarrow> qi | None \<Rightarrow> \<lparr>remaining = 10, resetDate = Some (now E)\<rparr>),
      subscriptionInfoIsActive = True,
      request = req\<lparr>req_subscriptionTier := t, req_userId := uid\<rparr>\<rparr>"

definition historyType :: "string \<Rightarrow> string" where
  "historyType t =
     (if t = ''text-to-image'' then ''text-to-image''
      else if t = ''image-to-image'' then ''image-to-image''
      else if t = ''multi-image-composition'' then ''multi-image''
      else if t = ''refine-image'' then ''refine''
      else ''text-to-image'')"

definition historyOutput :: "env \<Rightarrow> image \<Rightarrow> output_image" where
  "historyOutput E img =
     (let u = (if secureUrl img \<noteq> [] then secureUrl img else url img)
      in \<lparr>o_url = u,
          o_width = (if width img = 0 then 1024 else width img),
          o_height = (if height img = 0 then 1024 else height img),
          o_format = (if format img = [] then ''png'' else format img),
          o_fileSize = bytes img,
          o_storageKey = Some (orString (jsOr (publicId img) (img_id img))
                                 (''generated-'' @ showNat (now E))),
          o_thumbnailUrl = Some (orString (thumbnailUrl img) (url img)),
          o_publicId = Some (orString (publicId img) []),
          o_secureUrl = u, o_cloudinaryUrl = u, o_bytes = bytes img\<rparr>)"

definition historyRecord ::
  "env \<Rightarrow> string \<Rightarrow> string \<Rightarrow> string option \<Rightarrow> generation_result \<Rightarrow> string option \<Rightarrow> generation" where
  "historyRecord E uid type p result q =
     \<lparr>g_userId = uid, g_type = historyType type,
      status = (case result of Success d \<Rightarrow> ''completed'' | Failure err \<Rightarrow> ''failed''),
      g_prompt = p, g_quality = Some (orString q ''standard''), inputImages = [],
      outputImages = (case result of
                        Success d \<Rightarrow> map (historyOutput E) (images d)
                      | Failure err \<Rightarrow> []),
      cost = 0, credits = 1,
      errorMessage = (case result of Success d \<Rightarrow> None | Failure err \<Rightarrow> Some (message err))\<rparr>"

text \<open>\<open>saveGenerationHistory\<close> creates a record of its own; a failure of the store is only logged.\<close>

definition saveGenerationHistory ::
  "env \<Rightarrow> string \<Rightarrow> string \<Rightarrow> string option \<Rightarrow> generation_result \<Rightarrow> string option
     \<Rightarrow> world \<Rightarrow> world" where
  "saveGenerationHistory E uid type p result q w =
     snd (insertGeneration E (historyRecord E uid type p result q) w)"

definition internalError :: "string \<Rightarrow> api_response" where
  "internalError msg =
     \<lparr>res_status = 500, res_body = [(''success'', JBool False), (''message'', JString msg)]\<rparr>"

text \<open>The request object the controller builds from the body: prompt, aspectRatio, style, quality, negativePrompt.\<close>

definition bodyRequest :: "http_request \<Rightarrow> gen_request" where
  "bodyRequest req =
     \<lparr>prompt = b_prompt req, quality = b_quality req, batchSize = None,
      aspectRatio = b_aspectRatio req, style = b_style req,
      negativePrompt = b_negativePrompt req, numberOfImages = None,
      req_subscriptionTier = [], req_userId = []\<rparr>"

definition textToImageController :: "env \<Rightarrow> http_request \<Rightarrow> world \<Rightarrow> api_response \<times> world" where
  "textToImageController E req w =
     (case jsOr (auth_userId req) (user_id req) of
        None \<Rightarrow>
          (\<lparr>res_status = 401,
            res_body = [(''success'', JBool False),
                        (''message'', JString ''Authentication required - no user ID found'')]\<rparr>, w)
      | Some uid \<Rightarrow>
          if uid = [] then
            (\<lparr>res_status = 401,
              res_body = [(''success'', JBool False),
                          (''message'', JString ''Authentication required - no user ID found'')]\<rparr>, w)
          else
     (case ensureUserExists E uid w of
        (Inl e, w1) \<Rightarrow> (internalError ''Internal server error during image generation'', w1)
      | (Inr usr, w1) \<Rightarrow>
          if b_prompt req = None
          then (internalError ''Internal server error during image generation'', w1)
          else
     (let ctx = createContext E uid (userTier usr) (bodyRequest req) (req_quotaInfo req)
      in case generateTextToImage E ctx w1 of
           (Inl e, w2) \<Rightarrow> (internalError ''Internal server error during image generation'', w2)
         | (Inr result, w2) \<Rightarrow>
             (let w3 = saveGenerationHistory E uid ''text-to-image'' (b_prompt req) result
                         (b_quality req) w2
              in case result of
                   Failure err \<Rightarrow>
                     (\<lparr>res_status = 400,
                       res_body = [(''success'', JBool False),
                                   (''message'', JString (if message err = [] then ''Image generation failed''
                                                          else message err))]\<rparr>, w3)
                 | Success d \<Rightarrow>
                     (\<lparr>res_status = 200,
                       res_body = [(''success'', JBool True),
                                   (''data'', JObject [(''images'', JImages (images d))])]\<rparr>, w3)))))"

text \<open>VideoGenerationService.generateVideo and the route handler \<open>generateVideo\<close> above it.\<close>

definition generateVideoService :: "env \<Rightarrow> nat \<Rightarrow> js_error + (string \<times> string)" where
  "generateVideoService E k =
     (case axiosPostVideo E k of
        AxiosOk taskId st \<Rightarrow> Inr (taskId, st)
      | AxiosFails responseMessage msg \<Rightarrow>
          Inl (Error (''Video generation failed: '' @ orString responseMessage msg))
      | OtherFails e \<Rightarrow> Inl (Error ''Video generation failed due to an unexpected error''))"

definition generateVideoController :: "env \<Rightarrow> http_request \<Rightarrow> world \<Rightarrow> api_response \<times> world" where
  "generateVideoController E req w =
     (if \<not> truthy (b_image req) then
        (\<lparr>res_status = 400,
          res_body = [(''success'', JBool False), (''error'', JString ''Image is required'')]\<rparr>, w)
      else if \<not> truthy (b_prompt req) then
        (\<lparr>res_status = 400,
          res_body = [(''success'', JBool False), (''error'', JString ''Prompt is required'')]\<rparr>, w)
      else
        (let w1 = w\<lparr>videoSubmitCalls := Suc (videoSubmitCalls w)\<rparr>
         in case generateVideoService E (videoSubmitCalls w) of
              Inr (taskId, st) \<Rightarrow>
                (\<lparr>res_status = 200,
                  res_body = [(''success'', JBool True),
                              (''data'', JObject [(''task_id'', JString taskId), (''status'', JString st),
                                 (''message'', JString ''Video generation initiated. Use the task_id to check status.'')])]\<rparr>,
                 w1)
            | Inl e \<Rightarrow>
                (\<lparr>res_status = 500,
                  res_body = [(''success'', JBool False),
                              (''error'', JString (case errMessage e of
                                                    Some m \<Rightarrow> m | None \<Rightarrow> ''Video generation failed''))]\<rparr>,
                 w1)))"

section \<open>Example environment and world\<close>

text \<open>
  An environment in which every collaborator answers well: the provider returns an image
  at once, the media store accepts every upload, the database never fails.
\<close>

definition exampleEnv :: env where
  "exampleEnv =
     \<lparr>quotaExceededStatus = 429, quotaExceededCode = ''QUOTA_EXCEEDED'',
      validationStatus = 400, validationCode = ''VALIDATION_ERROR'',
      subscriptionStatus = 403, subscriptionCode = ''SUBSCRIPTION_ERROR'',
      calculateGenerationCost = (\<lambda>t opts. 1),
      validateImage = (\<lambda>b n t. Inr \<lparr>valid = True, errors = []\<rparr>),
      dbFail = (\<lambda>k. None),
      fetchSubmit = (\<lambda>k. Response 200 []
         \<lparr>sd_image_url = Some ''https://x/img.png'', sd_task_id = None, sd_id = None,
          sd_generation_id = None\<rparr>),
      fetchPoll = (\<lambda>k. Response 200 []
         \<lparr>pd_status = ''IN_PROGRESS'', pd_generated = [], pd_image_url = None, pd_error = None\<rparr>),
      fetchVideoSubmit = (\<lambda>k. Response 200 []
         \<lparr>sd_image_url = None, sd_task_id = Some ''task-1'', sd_id = None, sd_generation_id = None\<rparr>),
      fetchVideoPoll = (\<lambda>k. Response 200 []
         \<lparr>vd_status = ''IN_PROGRESS'', vd_video_url = None, vd_url = None, vd_video = None,
          vd_output = [], vd_generated = [], vd_error = None, vd_error_message = None,
          vd_message = None, vd_errors = None\<rparr>),
      fetchDownload = (\<lambda>k. Response 200 [] \<lparr>content_type = Some ''image/png'', body = []\<rparr>),
      uploadStream = (\<lambda>k. Inr
         \<lparr>public_id = Some ''artifex/abc'', secure_url = Some ''https://cdn/abc.png'',
          raw_width = Some 512, raw_height = Some 512, raw_format = Some ''png'',
          raw_bytes = Some 2048\<rparr>),
      readLocalImage = (\<lambda>u. Inr None),
      urlParses = (\<lambda>u. True),
      generateThumbnailUrl = (\<lambda>p. Inr ''https://cdn/thumb.png''),
      backoff = (\<lambda>base k. base),
      axiosPostVideo = (\<lambda>k. AxiosOk ''task-1'' ''CREATED''),
      cloudinaryConfigured = True,
      apiKey = ''key'',
      now = 1700000000\<rparr>"

definition exampleWorld :: world where
  "exampleWorld =
     \<lparr>users = [''user_1'' \<mapsto> \<lparr>isActive = True, monthlyUsage = 0, userTier = ''free''\<rparr>],
      generations = [], dbOps = 0, submitCalls = 0, pollCalls = 0, videoSubmitCalls = 0,
      videoPollCalls = 0, downloadCalls = 0, uploadCalls = 0, slept = []\<rparr>"

definition exampleRequest :: gen_request where
  "exampleRequest =
     \<lparr>prompt = Some ''a red circle'', quality = Some ''standard'', batchSize = None,
      aspectRatio = Some ''1:1'', style = None, negativePrompt = None, numberOfImages = None,
      req_subscriptionTier = ''free'', req_userId = ''user_1''\<rparr>"

definition exampleContext :: generation_context where
  "exampleContext =
     \<lparr>userId = ''user_1'', subscriptionTier = ''free'',
      quotaInfo = \<lparr>remaining = 10, resetDate = None\<rparr>,
      subscriptionInfoIsActive = True, request = exampleRequest\<rparr>"

section \<open>Predicates of the properties\<close>






definition exampleVideoParams :: video_params where
  "exampleVideoParams =
     \<lparr>vp_imageUrl = ''https://x/in.png'', vp_prompt = Some ''slow zoom'', vp_negativePrompt = None,
      vp_duration = None\<rparr>"

text \<open>The same world with 1000 units already consumed by the user, and a pending record that costs one credit.\<close>

definition heavyWorld :: world where
  "heavyWorld = exampleWorld\<lparr>users :=
     [''user_1'' \<mapsto> \<lparr>isActive = True, monthlyUsage = 1000, userTier = ''free''\<rparr>]\<rparr>"

definition exampleRecord :: generation where
  "exampleRecord =
     \<lparr>g_userId = ''user_1'', g_type = ''text-to-image'', status = ''pending'',
      g_prompt = Some ''a red circle'', g_quality = Some ''standard'', inputImages = [],
      outputImages = [], cost = 1, credits = 1, errorMessage = None\<rparr>"

text \<open>The same request from a context whose quota balance is zero.\<close>

definition brokeContext :: generation_context where
  "brokeContext = exampleContext\<lparr>quotaInfo := \<lparr>remaining = 0, resetDate = None\<rparr>\<rparr>"

text \<open>Two worlds with the same database: a provider or media-store call changes call counters and waits only.\<close>

definition sameDb :: "world \<Rightarrow> world \<Rightarrow> bool" where
  "sameDb w w' = (users w' = users w \<and> generations w' = generations w \<and> dbOps w' = dbOps w)"

text \<open>The provider refuses every submission with status 400.\<close>

definition rejectingEnv :: env where
  "rejectingEnv = exampleEnv\<lparr>fetchSubmit := (\<lambda>k. Response 400 ''Bad request''
      \<lparr>sd_image_url = None, sd_task_id = None, sd_id = None, sd_generation_id = None\<rparr>)\<rparr>"

definition isFailure :: "(js_error + generation_result) \<Rightarrow> bool" where
  "isFailure r = (case r of Inr (Failure err) \<Rightarrow> True | _ \<Rightarrow> False)"

definition isSuccess :: "(js_error + generation_result) \<Rightarrow> bool" where
  "isSuccess r = (case r of Inr (Success d) \<Rightarrow> True | _ \<Rightarrow> False)"

text \<open>The video endpoint of the provider refuses the key with status 401.\<close>

definition videoRejectingEnv :: env where
  "videoRejectingEnv = exampleEnv\<lparr>fetchVideoSubmit := (\<lambda>k. Response 401 ''Unauthorized''
      \<lparr>sd_image_url = None, sd_task_id = None, sd_id = None, sd_generation_id = None\<rparr>)\<rparr>"

text \<open>A call returns when its outcome is a value; it throws when its outcome is a thrown value.\<close>

definition returns :: "(js_error + 'a) \<times> world \<Rightarrow> bool" where
  "returns r = (case fst r of Inl e \<Rightarrow> False | Inr x \<Rightarrow> True)"

definition throwsOnlyAppErrors :: "(js_error + 'a) \<times> world \<Rightarrow> bool" where
  "throwsOnlyAppErrors r = (case fst r of Inl e \<Rightarrow> isAppError e | Inr x \<Rightarrow> True)"

text \<open>
  A submission that fails in a transient way: the request is rejected with an error the
  retry handler retries, or answered with status 408, 429 or 5xx.
\<close>

definition transientSubmit :: "env \<Rightarrow> submit_data http_response \<Rightarrow> bool" where
  "transientSubmit E r =
     (case r of
        Rejects e \<Rightarrow> retryable E (handleFreepikError E e)
      | Response st txt d \<Rightarrow> \<not> ok st \<and> (st = 408 \<or> st = 429 \<or> (500 \<le> st \<and> st \<le> 599)))"

text \<open>The provider is down: every submission is answered with status 503.\<close>

definition unavailableEnv :: env where
  "unavailableEnv = exampleEnv\<lparr>fetchSubmit := (\<lambda>k. Response 503 ''Service Unavailable''
      \<lparr>sd_image_url = None, sd_task_id = None, sd_id = None, sd_generation_id = None\<rparr>)\<rparr>"

text \<open>The media store is not configured: every upload is refused.\<close>

definition storeDownEnv :: env where
  "storeDownEnv = exampleEnv\<lparr>cloudinaryConfigured := False\<rparr>"

text \<open>
  The asset the orchestrator keeps when the upload of the provider's image failed: the
  provider's URL in every URL field, placeholder metadata, the processing stamp.
\<close>

definition keptAsset :: "env \<Rightarrow> string \<Rightarrow> string \<Rightarrow> image" where
  "keptAsset E t u =
     \<lparr>img_id = Some (''freepik_'' @ showNat (now E)), url = u, secureUrl = u,
      publicId = Some (''freepik_'' @ showNat (now E)), width = 1024, height = 1024,
      format = ''jpeg'', bytes = 0, size = 0, cloudinaryUrl = u, originalUrl = u,
      thumbnailUrl = None, img_data = None, processedAt = Some (now E), tier = Some t,
      processingError = None\<rparr>"

text \<open>
  An authenticated text-to-image request, and an environment in which the third database
  operation fails and the video service times out.
\<close>

definition exampleHttpRequest :: http_request where
  "exampleHttpRequest =
     \<lparr>auth_userId = Some ''user_1'', user_id = None, b_prompt = Some ''a red circle'',
      b_aspectRatio = Some ''1:1'', b_style = None, b_quality = Some ''standard'',
      b_negativePrompt = None, b_image = Some ''https://x/in.png'', b_duration = None,
      req_quotaInfo = None\<rparr>"

definition dbDownEnv :: env where
  "dbDownEnv = exampleEnv\<lparr>dbFail := (\<lambda>k. if k = 2 then Some (Error ''db down'') else None),
     axiosPostVideo := (\<lambda>k. AxiosFails None ''timeout of 30000ms exceeded'')\<rparr>"

text \<open>The orchestrator creates its own record when the context passes validation and the store accepts the insert.\<close>

definition recordCreated :: "env \<Rightarrow> generation_context \<Rightarrow> world \<Rightarrow> bool" where
  "recordCreated E ctx w =
     (case validateGenerationContext E ctx w of
        (Inl e, w1) \<Rightarrow> False
      | (Inr u, w1) \<Rightarrow>
          (case createGenerationRecord E ctx ''text-to-image'' w1 of
             (Inl e, w2) \<Rightarrow> False
           | (Inr r, w2) \<Rightarrow> True))"

text \<open>
  The output invariant of a record: completed exactly when it has outputs, failed exactly
  when its error message is set, and no outputs when failed.
\<close>

definition jobInvariant :: "generation \<Rightarrow> bool" where
  "jobInvariant g =
     ((status g = ''completed'') = (outputImages g \<noteq> [])
      \<and> (status g = ''failed'') = (errorMessage g \<noteq> None)
      \<and> (status g \<noteq> ''failed'' \<or> outputImages g = []))"

text \<open>A record that is still on its way: pending or processing, without outputs and without error.\<close>

definition inFlight :: "generation \<Rightarrow> bool" where
  "inFlight g =
     ((status g = ''pending'' \<or> status g = ''processing'')
      \<and> outputImages g = [] \<and> errorMessage g = None)"

text \<open>
  The owner's usage counter, and the charge of one text-to-image job: the credits of its
  record when the quota step got as far as saving the user (validation passed, the record
  was created, the balance was sufficient, the user was found and saved), nothing
  otherwise. Whether the job then completes or fails plays no part.
\<close>

definition usageOf :: "world \<Rightarrow> string \<Rightarrow> int" where
  "usageOf w uid = (case users w uid of None \<Rightarrow> 0 | Some u \<Rightarrow> monthlyUsage u)"

definition quotaCharged :: "env \<Rightarrow> generation_context \<Rightarrow> generation \<Rightarrow> world \<Rightarrow> bool" where
  "quotaCharged E ctx g w =
     (\<not> remaining (quotaInfo ctx) < credits g
      \<and> dbFail E (dbOps w) = None
      \<and> users w (userId ctx) \<noteq> None
      \<and> dbFail E (Suc (dbOps w)) = None)"

definition jobCharge :: "env \<Rightarrow> generation_context \<Rightarrow> world \<Rightarrow> int" where
  "jobCharge E ctx w =
     (case validateGenerationContext E ctx w of
        (Inl e, w1) \<Rightarrow> 0
      | (Inr u, w1) \<Rightarrow>
          (case createGenerationRecord E ctx ''text-to-image'' w1 of
             (Inl e, w2) \<Rightarrow> 0
           | (Inr (gid, g), w2) \<Rightarrow> if quotaCharged E ctx g w2 then credits g else 0))"

text \<open>A sequence of text-to-image jobs, one after the other, and the sum of their charges.\<close>

fun runJobs :: "env \<Rightarrow> generation_context list \<Rightarrow> world \<Rightarrow> world" where
  "runJobs E [] w = w"
| "runJobs E (ctx # ctxs) w = runJobs E ctxs (snd (generateTextToImage E ctx w))"

fun totalCharge :: "env \<Rightarrow> generation_context list \<Rightarrow> world \<Rightarrow> int" where
  "totalCharge E [] w = 0"
| "totalCharge E (ctx # ctxs) w =
     jobCharge E ctx w + totalCharge E ctxs (snd (generateTextToImage E ctx w))"

text \<open>
  A media store that accepts the upload and answers with the very values the fallback of
  \<open>uploadToCloudinary\<close> makes up: the provider's URL, a \<open>freepik_\<close> id, jpeg, 1024 by 1024.
\<close>

definition mirrorEnv :: env where
  "mirrorEnv = exampleEnv\<lparr>uploadStream := (\<lambda>k. Inr
      \<lparr>public_id = Some ''freepik_1700000000'', secure_url = Some ''https://x/img.png'',
       raw_width = Some 1024, raw_height = Some 1024, raw_format = Some ''jpeg'',
       raw_bytes = Some 0\<rparr>)\<rparr>"


text \<open>
  The failure that carries a thrown value's code and message: the code of an AppError,
  \<open>GENERATION_FAILED\<close> for anything else; the message of an Error, \<open>Generation failed\<close>
  for a value without one; the status code as details.
\<close>

definition failureOf :: "env \<Rightarrow> js_error \<Rightarrow> generation_result" where
  "failureOf E e =
     Failure \<lparr>code = (case errorCode E e of Some c \<Rightarrow> c | None \<Rightarrow> ''GENERATION_FAILED''),
              message = (case errMessage e of Some m \<Rightarrow> m | None \<Rightarrow> ''Generation failed''),
              details = statusCode E e\<rparr>"

text \<open>
  The value thrown inside the \<open>try\<close> block of an entry point, if any. The steps the four
  entry points share throw when the validation of the context throws, when the insert of
  the record throws, when the quota step refuses (a \<open>QuotaExceededError\<close>), or when the
  provider call under the retry handler throws. The entry points with input images throw
  before that when an image is refused; the composition also when the tier is \<open>free\<close>.
\<close>

definition thrownBySteps ::
  "env \<Rightarrow> generation_context \<Rightarrow> generation_context \<Rightarrow> string \<Rightarrow> freepik_response comp \<Rightarrow> world
     \<Rightarrow> js_error option" where
  "thrownBySteps E ctx quotaCtx type call w =
     (case validateGenerationContext E ctx w of
        (Inl e, w1) \<Rightarrow> Some e
      | (Inr u, w1) \<Rightarrow>
     (case createGenerationRecord E ctx type w1 of
        (Inl e, w2) \<Rightarrow> Some e
      | (Inr (gid, g), w2) \<Rightarrow>
     (case validateAndConsumeQuota E quotaCtx gid g w2 of
        ((quotaResult, g1), w3) \<Rightarrow>
          if \<not> q_success quotaResult then Some (quotaExceededOf quotaResult)
          else (case executeWithRetry E call w3 of
                  (Inl e, w4) \<Rightarrow> Some e
                | (Inr r, w4) \<Rightarrow> None))))"

definition thrownByInput :: "env \<Rightarrow> generation_context \<Rightarrow> string \<Rightarrow> js_error option" where
  "thrownByInput E ctx inputImage =
     (case validateImage E inputImage ''input_image'' (subscriptionTier ctx) of
        Inl e \<Rightarrow> Some e
      | Inr v \<Rightarrow> if \<not> valid v then Some (inputImageInvalid v) else None)"

definition orElse :: "'a option \<Rightarrow> 'a option \<Rightarrow> 'a option" where
  "orElse a b = (case a of Some x \<Rightarrow> Some x | None \<Rightarrow> b)"

definition thrownTextToImage :: "env \<Rightarrow> generation_context \<Rightarrow> world \<Rightarrow> js_error option" where
  "thrownTextToImage E ctx w =
     thrownBySteps E ctx ctx ''text-to-image'' (textToImage E (request ctx)) w"

definition thrownImageToImage ::
  "env \<Rightarrow> generation_context \<Rightarrow> string \<Rightarrow> world \<Rightarrow> js_error option" where
  "thrownImageToImage E ctx inputImage w =
     orElse (thrownByInput E ctx inputImage)
       (thrownBySteps E ctx ctx ''image-to-image'' (imageToImage E (request ctx)) w)"

definition thrownMultiImage ::
  "env \<Rightarrow> generation_context \<Rightarrow> string list \<Rightarrow> world \<Rightarrow> js_error option" where
  "thrownMultiImage E ctx inputs w =
     (if subscriptionTier ctx = ''free''
      then Some (SubscriptionError ''Multi-image composition requires Plus or Pro subscription'')
      else orElse (validateInputImages E (subscriptionTier ctx) 0 inputs)
             (thrownBySteps E ctx
                (ctx\<lparr>request := (request ctx)\<lparr>batchSize := Some (int (length inputs))\<rparr>\<rparr>)
                ''multi-image''
                (textToImage E ((request ctx)\<lparr>prompt :=
                   Some (templ (prompt (request ctx))
                           @ ''. Create a composition combining multiple elements.'')\<rparr>)) w))"

definition thrownRefine ::
  "env \<Rightarrow> generation_context \<Rightarrow> string \<Rightarrow> world \<Rightarrow> js_error option" where
  "thrownRefine E ctx inputImage w =
     orElse (thrownByInput E ctx inputImage)
       (thrownBySteps E ctx ctx ''refine''
          (imageToImage E ((request ctx)\<lparr>prompt :=
             Some (templ (prompt (request ctx)) @ ''. Refine and enhance the image quality.'')\<rparr>)) w)"

text \<open>
  An outcome translates what was thrown: a thrown value comes back as the failure that
  carries its code and message, and when nothing was thrown the outcome is a success.
\<close>

definition translated ::
  "env \<Rightarrow> js_error option \<Rightarrow> (js_error + generation_result) \<times> world \<Rightarrow> bool" where
  "translated E thrown r =
     (case thrown of
        Some e \<Rightarrow> fst r = Inr (failureOf E e)
      | None \<Rightarrow> isSuccess (fst r))"

section \<open>Polling\<close>





section \<open>The quota decision\<close>

lemma quota_verdict_ignores_usage:
  assumes "dbOps w1 = dbOps w2"
      and "(users w1 (userId ctx) = None) = (users w2 (userId ctx) = None)"
  shows "fst (validateAndConsumeQuota E ctx gid g w1) = fst (validateAndConsumeQuota E ctx gid g w2)"
  using assms
  by (auto simp: validateAndConsumeQuota_def findByClerkId_def saveUser_def saveGeneration_def
      dbOp_def Let_def split: option.splits)

lemma default_quota_passes:
  assumes "credits g \<le> 10" and "users w uid = Some usr" and "\<And>k. dbFail E k = None"
  shows "q_success (fst (fst (validateAndConsumeQuota E (createContext E uid t req None) gid g w)))"
  using assms
  by (simp add: validateAndConsumeQuota_def findByClerkId_def saveUser_def saveGeneration_def
      dbOp_def Let_def createContext_def)

text \<open>
  Claim C10. The verdict of \<open>validateAndConsumeQuota\<close> (and the record object it leaves)
  is the same in two worlds that differ in the persisted \<open>monthlyUsage\<close> of the users: it
  is computed from \<open>quotaInfo.remaining\<close> of the context. Without a quota object from the
  middleware, \<open>createContext\<close> puts 10 remaining credits into the context, and the check
  then passes for a record of at most 10 credits whatever the user has consumed.
\<close>

theorem quota_decision_from_context_only:
  assumes "dbOps w1 = dbOps w2"
      and "(users w1 (userId ctx) = None) = (users w2 (userId ctx) = None)"
      and "credits g' \<le> 10" and "users w uid = Some usr" and "\<And>k. dbFail E k = None"
  shows "fst (validateAndConsumeQuota E ctx gid g w1) = fst (validateAndConsumeQuota E ctx gid g w2)
       \<and> remaining (quotaInfo (createContext E uid t req None)) = 10
       \<and> quotaInfo (createContext E uid t req (Some q)) = q
       \<and> q_success (fst (fst (validateAndConsumeQuota E (createContext E uid t req None) gid' g' w)))"
proof -
  have a: "fst (validateAndConsumeQuota E ctx gid g w1) = fst (validateAndConsumeQuota E ctx gid g w2)"
    by (rule quota_verdict_ignores_usage [OF assms(1,2)])
  have b: "q_success (fst (fst (validateAndConsumeQuota E (createContext E uid t req None) gid' g' w)))"
    by (rule default_quota_passes [OF assms(3-5)])
  show ?thesis
    using a b by (simp add: createContext_def)
qed

theorem quota_decision_from_context_only_witness:
  "dbOps exampleWorld = dbOps heavyWorld
   \<and> monthlyUsage (the (users exampleWorld ''user_1'')) = 0
   \<and> monthlyUsage (the (users heavyWorld ''user_1'')) = 1000
   \<and> credits exampleRecord \<le> 10
   \<and> (\<forall>k. dbFail exampleEnv k = None)
   \<and> fst (validateAndConsumeQuota exampleEnv exampleContext 0 exampleRecord exampleWorld)
       = fst (validateAndConsumeQuota exampleEnv exampleContext 0 exampleRecord heavyWorld)
   \<and> remaining (quotaInfo (createContext exampleEnv ''user_1'' ''free'' exampleRequest None)) = 10
   \<and> q_success (fst (fst (validateAndConsumeQuota exampleEnv
                   (createContext exampleEnv ''user_1'' ''free'' exampleRequest None)
                   0 exampleRecord heavyWorld)))"
proof -
  have h1: "dbOps exampleWorld = dbOps heavyWorld"
    by (simp add: heavyWorld_def)
  have h2: "(users exampleWorld (userId exampleContext) = None)
              = (users heavyWorld (userId exampleContext) = None)"
    by (simp add: heavyWorld_def exampleWorld_def exampleContext_def)
  have h3: "credits exampleRecord \<le> 10"
    by (simp add: exampleRecord_def)
  have h4: "users heavyWorld ''user_1'' =
              Some \<lparr>isActive = True, monthlyUsage = 1000, userTier = ''free''\<rparr>"
    by (simp add: heavyWorld_def)
  have h5: "\<And>k. dbFail exampleEnv k = None"
    by (simp add: exampleEnv_def)
  show ?thesis
    using quota_decision_from_context_only [OF h1 h2 h3 h4 h5,
        where gid = 0 and g = exampleRecord and t = "''free''" and req = exampleRequest
          and gid' = 0] h1 h3 h5
    by (simp add: heavyWorld_def exampleWorld_def)
qed

section \<open>Insufficient quota\<close>

lemma validateGenerationContext_world:
  "snd (validateGenerationContext E ctx w) = w\<lparr>dbOps := Suc (dbOps w)\<rparr>"
  by (simp add: validateGenerationContext_def findByClerkId_def dbOp_def Let_def
      split: option.splits)

lemma createGenerationRecord_frame:
  "createGenerationRecord E ctx type w = (r, w') \<Longrightarrow>
     users w' = users w \<and> submitCalls w' = submitCalls w \<and> pollCalls w' = pollCalls w
     \<and> slept w' = slept w"
  by (auto simp: createGenerationRecord_def insertGeneration_def dbOp_def Let_def
      split: option.splits)

lemma createGenerationRecord_Inr:
  "createGenerationRecord E ctx type w = (Inr (gid, g), w') \<Longrightarrow>
     gid = length (generations w) \<and> generations w' = generations w @ [g]
     \<and> status g = ''pending'' \<and> outputImages g = [] \<and> errorMessage g = None
     \<and> dbOps w' = Suc (dbOps w)"
  by (auto simp: createGenerationRecord_def insertGeneration_def dbOp_def Let_def
      split: option.splits)

lemma updateGenerationRecord_frame:
  "updateGenerationRecord E gid g f w = (g', w') \<Longrightarrow>
     users w' = users w \<and> submitCalls w' = submitCalls w \<and> pollCalls w' = pollCalls w
     \<and> slept w' = slept w \<and> g' = f g"
  by (auto simp: updateGenerationRecord_def saveGeneration_def dbOp_def
      split: option.splits)

lemma updateGenerationRecord_saved:
  "updateGenerationRecord E gid g f w = (g', w') \<Longrightarrow> dbFail E (dbOps w) = None \<Longrightarrow>
     generations w' = (generations w)[gid := f g]"
  by (auto simp: updateGenerationRecord_def saveGeneration_def dbOp_def
      split: option.splits)

lemma insufficientQuotaMessage_nonempty [simp]: "insufficientQuotaMessage a b \<noteq> []"
  by (simp add: insufficientQuotaMessage_def)

text \<open>
  Claim C3. When the context passes validation, the record is created and the remaining
  balance is below the credits of the record, \<open>generateTextToImage\<close> returns a failure
  built from the QuotaExceededError (its code and status, the "insufficient quota"
  message); no submit and no status request has been sent to the provider, the users'
  usage counters are unchanged, and the record is saved as failed when the store accepts
  the write.
\<close>

theorem quota_exceeded:
  assumes v: "validateGenerationContext E ctx w = (Inr (), w1)"
      and c: "createGenerationRecord E ctx ''text-to-image'' w1 = (Inr (gid, g), w2)"
      and q: "remaining (quotaInfo ctx) < credits g"
  shows "\<exists>w'. generateTextToImage E ctx w =
           (Inr (Failure \<lparr>code = quotaExceededCode E,
                          message = insufficientQuotaMessage (credits g) (remaining (quotaInfo ctx)),
                          details = Some (quotaExceededStatus E)\<rparr>), w')
         \<and> submitCalls w' = submitCalls w \<and> pollCalls w' = pollCalls w
         \<and> users w' = users w
         \<and> (dbFail E (dbOps w2) = None \<longrightarrow>
              generations w' = generations w @
                [g\<lparr>status := ''failed'',
                   errorMessage := Some (insufficientQuotaMessage (credits g)
                                           (remaining (quotaInfo ctx)))\<rparr>])"
proof -
  have w1: "w1 = w\<lparr>dbOps := Suc (dbOps w)\<rparr>"
    using validateGenerationContext_world [of E ctx w] v by simp
  note f2 = createGenerationRecord_frame [OF c]
  note r2 = createGenerationRecord_Inr [OF c]
  obtain g' w' where u: "updateGenerationRecord E gid g
           (\<lambda>r. r\<lparr>status := ''failed'',
                  errorMessage := Some (insufficientQuotaMessage (credits g) (remaining (quotaInfo ctx)))\<rparr>) w2
           = (g', w')"
    by (cases "updateGenerationRecord E gid g
           (\<lambda>r. r\<lparr>status := ''failed'',
                  errorMessage := Some (insufficientQuotaMessage (credits g) (remaining (quotaInfo ctx)))\<rparr>) w2")
  note f3 = updateGenerationRecord_frame [OF u]
  have s3: "dbFail E (dbOps w2) = None \<Longrightarrow> generations w' = generations w @
                [g\<lparr>status := ''failed'',
                   errorMessage := Some (insufficientQuotaMessage (credits g)
                                           (remaining (quotaInfo ctx)))\<rparr>]"
    using updateGenerationRecord_saved [OF u] r2 w1 by simp
  have "generateTextToImage E ctx w =
           (Inr (Failure \<lparr>code = quotaExceededCode E,
                          message = insufficientQuotaMessage (credits g) (remaining (quotaInfo ctx)),
                          details = Some (quotaExceededStatus E)\<rparr>), w')"
    using q
    by (simp add: generateTextToImage_def v c validateAndConsumeQuota_def Let_def
        catchGeneration_def quotaExceededOf_def orString_def orInt_def errMessage_def
        errorCode_def statusCode_def u)
  then show ?thesis
    using f2 f3 w1 s3 by auto
qed

theorem quota_exceeded_witness:
  "remaining (quotaInfo brokeContext) = 0
   \<and> (\<exists>w'. generateTextToImage exampleEnv brokeContext exampleWorld =
         (Inr (Failure \<lparr>code = ''QUOTA_EXCEEDED'',
                        message = ''Insufficient quota. Need 1 credits, have 0'',
                        details = Some 429\<rparr>), w')
        \<and> submitCalls w' = 0 \<and> users w' = users exampleWorld
        \<and> monthlyUsage (the (users w' ''user_1'')) = 0
        \<and> map status (generations w') = [''failed''])"
proof -
  let ?g = "\<lparr>g_userId = ''user_1'', g_type = ''text-to-image'', status = ''pending'',
      g_prompt = Some ''a red circle'', g_quality = Some ''standard'', inputImages = [],
      outputImages = [], cost = 1, credits = 1, errorMessage = None\<rparr>"
  have h1: "validateGenerationContext exampleEnv brokeContext exampleWorld
              = (Inr (), exampleWorld\<lparr>dbOps := 1\<rparr>)"
    by (simp add: validateGenerationContext_def findByClerkId_def dbOp_def Let_def
        brokeContext_def exampleContext_def exampleRequest_def exampleEnv_def exampleWorld_def
        getModelCapabilities_def truthy_def trim_def isSpace_def orInt_def)
  have h2: "createGenerationRecord exampleEnv brokeContext ''text-to-image''
              (exampleWorld\<lparr>dbOps := 1\<rparr>)
              = (Inr (0, ?g), exampleWorld\<lparr>dbOps := 2, generations := [?g]\<rparr>)"
    by (simp add: createGenerationRecord_def insertGeneration_def dbOp_def Let_def
        brokeContext_def exampleContext_def exampleRequest_def exampleEnv_def exampleWorld_def
        truthy_def orInt_def)
  have h3: "remaining (quotaInfo brokeContext) < credits ?g"
    by (simp add: brokeContext_def)
  have m: "insufficientQuotaMessage 1 0 = ''Insufficient quota. Need 1 credits, have 0''"
    by (simp add: insufficientQuotaMessage_def showInt_def digitChar_def)
  show ?thesis
    using quota_exceeded [OF h1 h2 h3] m
    by (auto simp: brokeContext_def exampleEnv_def exampleWorld_def)
qed

section \<open>What the provider and the media store leave untouched\<close>

lemma sameDb_refl [simp]: "sameDb w w"
  by (simp add: sameDb_def)

lemma sameDb_trans: "sameDb w w1 \<Longrightarrow> sameDb w1 w2 \<Longrightarrow> sameDb w w2"
  by (simp add: sameDb_def)

lemma pollGenerationLoop_sameDb: "pollGenerationLoop E n w = (r, w') \<Longrightarrow> sameDb w w'"
proof (induction n arbitrary: w)
  case 0
  then show ?case by auto
next
  case (Suc n)
  let ?w2 = "(sleep 2000 w)\<lparr>pollCalls := Suc (pollCalls (sleep 2000 w))\<rparr>"
  have s: "sameDb w ?w2"
    by (simp add: sameDb_def sleep_def)
  have "sameDb ?w2 w'"
    using Suc.prems Suc.IH [of ?w2]
    by (auto simp: Let_def split: http_response.splits option.splits if_splits)
  then show ?case
    using s sameDb_trans by blast
qed

lemma uploadImage_sameDb: "uploadImage E w = (r, w') \<Longrightarrow> sameDb w w'"
  by (auto simp: uploadImage_def sameDb_def Let_def split: sum.splits if_splits)

lemma uploadToCloudinary_sameDb: "uploadToCloudinary E u w = (r, w') \<Longrightarrow> sameDb w w'"
  by (auto simp: uploadToCloudinary_def Let_def sameDb_def
      split: http_response.splits prod.splits if_splits dest!: uploadImage_sameDb)

lemma requestImageUrl_sameDb: "requestImageUrl E req w = (r, w') \<Longrightarrow> sameDb w w'"
  by (auto simp: requestImageUrl_def Let_def sameDb_def pollGenerationResult_def
      split: option.splits http_response.splits prod.splits sum.splits if_splits
      dest!: pollGenerationLoop_sameDb)

lemma textToImageBody_sameDb: "textToImageBody E req w = (r, w') \<Longrightarrow> sameDb w w'"
  by (auto simp: textToImageBody_def sameDb_def
      split: prod.splits sum.splits
      dest!: uploadToCloudinary_sameDb requestImageUrl_sameDb)

lemma textToImage_sameDb: "textToImage E req w = (r, w') \<Longrightarrow> sameDb w w'"
  by (auto simp: textToImage_def split: prod.splits sum.splits dest: textToImageBody_sameDb)

lemma imageToImage_sameDb: "imageToImage E req w = (r, w') \<Longrightarrow> sameDb w w'"
  by (auto simp: imageToImage_def dest: textToImage_sameDb)

lemma withRetryLoop_sameDb:
  assumes "\<And>w r w'. operation w = (r, w') \<Longrightarrow> sameDb w w'"
  shows "withRetryLoop E operation b k n w = (r, w') \<Longrightarrow> sameDb w w'"
proof (induction n arbitrary: w k)
  case 0
  then show ?case by auto
next
  case (Suc n)
  obtain r1 w1 where o: "operation w = (r1, w1)"
    by (cases "operation w")
  have s1: "sameDb w w1" by (rule assms [OF o])
  show ?case
  proof (cases r1)
    case (Inr x)
    then show ?thesis using Suc.prems o s1 by auto
  next
    case (Inl e)
    show ?thesis
    proof (cases "\<not> retryable E e \<or> n = 0")
      case True
      then show ?thesis using Suc.prems o s1 Inl by (auto split: if_splits)
    next
      case False
      then have "withRetryLoop E operation b (Suc k) n (sleep (backoff E b k) w1) = (r, w')"
        using Suc.prems o Inl by simp
      then have "sameDb (sleep (backoff E b k) w1) w'"
        by (rule Suc.IH)
      then show ?thesis
        using s1 by (simp add: sameDb_def sleep_def)
    qed
  qed
qed

lemma executeWithRetry_sameDb:
  assumes "\<And>w r w'. operation w = (r, w') \<Longrightarrow> sameDb w w'"
  shows "executeWithRetry E operation w = (r, w') \<Longrightarrow> sameDb w w'"
  unfolding executeWithRetry_def withRetry_def
  by (rule withRetryLoop_sameDb [OF assms])

lemma processImage_sameDb: "processImage E t im w = (r, w') \<Longrightarrow> sameDb w w'"
  by (auto simp: processImage_def Let_def
      split: prod.splits sum.splits option.splits if_splits dest!: uploadImage_sameDb)

lemma processGeneratedImages_sameDb:
  "processGeneratedImages E ims t w = (r, w') \<Longrightarrow> sameDb w w'"
proof (induction ims arbitrary: w r)
  case Nil
  then show ?case by auto
next
  case (Cons im ims)
  then show ?case
    by (auto split: prod.splits dest!: processImage_sameDb intro: sameDb_trans)
qed

lemma processGeneratedImages_length:
  "processGeneratedImages E ims t w = (r, w') \<Longrightarrow> length r = length ims"
  by (induction ims arbitrary: w r) (auto split: prod.splits)

section \<open>Quota after a failed job\<close>

lemmas example_defs = exampleEnv_def exampleWorld_def exampleContext_def exampleRequest_def

lemmas orchestrator_defs = generateTextToImage_def validateGenerationContext_def
  createGenerationRecord_def validateAndConsumeQuota_def catchGeneration_def
  completeGeneration_def updateGenerationRecord_def quotaExceededOf_def
  findByClerkId_def saveUser_def insertGeneration_def saveGeneration_def dbOp_def
  getModelCapabilities_def executeWithRetry_def withRetry_def retryable_def asReason_def

lemmas js_defs = truthy_def jsOr_def orString_def orInt_def trim_def isSpace_def templ_def
  errMessage_def errorCode_def statusCode_def isAppError_def isError_def ok_def digitChar_def

lemmas freepik_defs = textToImage_def textToImageBody_def requestImageUrl_def
  handleFreepikError_def
  uploadToCloudinary_def uploadImage_def directUrlFallback_def toImageData_def
  calculateCreditsUsed_def pollGenerationResult_def uploadFailed_def

lemma rejecting_run:
  "generateTextToImage rejectingEnv exampleContext exampleWorld =
     (Inr (Failure \<lparr>code = ''ProviderRejected'', message = ''Freepik API error: Bad request'',
                    details = Some 400\<rparr>),
      \<lparr>users = [''user_1'' \<mapsto> \<lparr>isActive = True, monthlyUsage = 1, userTier = ''free''\<rparr>],
       generations = [exampleRecord\<lparr>status := ''failed'',
                        errorMessage := Some ''Freepik API error: Bad request''\<rparr>],
       dbOps = 6, submitCalls = 1, pollCalls = 0, videoSubmitCalls = 0, videoPollCalls = 0,
       downloadCalls = 0, uploadCalls = 0, slept = []\<rparr>)"
  by (simp add: rejectingEnv_def example_defs exampleRecord_def orchestrator_defs js_defs
      freepik_defs Let_def numeral_3_eq_3)

text \<open>
  Claim C1 fails as stated: when the provider refuses the submission, the job ends failed
  and the owner's usage counter has moved from 0 to 1.
\<close>

theorem failed_job_consumes_quota_counterexample:
  "isFailure (fst (generateTextToImage rejectingEnv exampleContext exampleWorld))
   \<and> map status (generations (snd (generateTextToImage rejectingEnv exampleContext exampleWorld)))
       = [''failed'']
   \<and> monthlyUsage (the (users exampleWorld ''user_1'')) = 0
   \<and> monthlyUsage (the (users (snd (generateTextToImage rejectingEnv exampleContext exampleWorld))
                            ''user_1'')) = 1"
  by (simp add: rejecting_run isFailure_def exampleRecord_def) (simp add: exampleWorld_def)

lemma catchGeneration_users: "users (snd (catchGeneration E e r w)) = users w"
  by (auto simp: catchGeneration_def updateGenerationRecord_def saveGeneration_def dbOp_def Let_def
      split: option.splits prod.splits)

lemma completeGeneration_users:
  "users (snd (completeGeneration E ctx gid g inputs fr w)) = users w"
  by (auto simp: completeGeneration_def updateGenerationRecord_def saveGeneration_def dbOp_def
      sameDb_def split: prod.splits option.splits dest!: processGeneratedImages_sameDb)

lemma quota_step_users:
  assumes "validateAndConsumeQuota E ctx gid g w = ((qr, g1), w')"
  shows "(remaining (quotaInfo ctx) < credits g \<longrightarrow> users w' = users w)
       \<and> (q_success qr \<longrightarrow>
            (\<exists>usr. users w (userId ctx) = Some usr
                  \<and> users w' = (users w)(userId ctx \<mapsto>
                       usr\<lparr>monthlyUsage := monthlyUsage usr + credits g\<rparr>)))"
  using assms
  by (auto simp: validateAndConsumeQuota_def findByClerkId_def saveUser_def saveGeneration_def
      dbOp_def Let_def quotaFailure_def split: option.splits if_splits)

lemma usage_left_by_quota_step:
  assumes v: "validateGenerationContext E ctx w = (Inr (), w1)"
      and c: "createGenerationRecord E ctx ''text-to-image'' w1 = (Inr (gid, g), w2)"
      and q: "validateAndConsumeQuota E ctx gid g w2 = ((qr, g1), w3)"
  shows "users (snd (generateTextToImage E ctx w)) = users w3
       \<and> (remaining (quotaInfo ctx) < credits g \<longrightarrow> users w3 = users w)
       \<and> (q_success qr \<longrightarrow>
            (\<exists>usr. users w (userId ctx) = Some usr
                  \<and> users w3 = (users w)(userId ctx \<mapsto>
                       usr\<lparr>monthlyUsage := monthlyUsage usr + credits g\<rparr>)))"
proof -
  have w1: "users w1 = users w"
    using validateGenerationContext_world [of E ctx w] v by simp
  have w2: "users w2 = users w"
    using createGenerationRecord_frame [OF c] w1 by simp
  obtain r4 w4 where p: "executeWithRetry E (textToImage E (request ctx)) w3 = (r4, w4)"
    by (cases "executeWithRetry E (textToImage E (request ctx)) w3")
  have w4: "users w4 = users w3"
    using executeWithRetry_sameDb [OF textToImage_sameDb p] by (simp add: sameDb_def)
  have "users (snd (generateTextToImage E ctx w)) = users w3"
    by (simp add: generateTextToImage_def v c q p catchGeneration_users completeGeneration_users w4
        split: sum.splits)
  then show ?thesis
    using quota_step_users [OF q] w2 by simp
qed

section \<open>What leaves the entry points\<close>

lemma catchGeneration_returns [simp]: "returns (catchGeneration E e r w)"
  by (simp add: catchGeneration_def returns_def Let_def)

lemma completeGeneration_returns [simp]: "returns (completeGeneration E ctx gid g inputs fr w)"
  by (simp add: completeGeneration_def returns_def split: prod.splits)

lemma generateTextToImage_returns: "returns (generateTextToImage E ctx w)"
  by (simp add: generateTextToImage_def split: prod.splits sum.splits)

lemma generateImageToImage_returns: "returns (generateImageToImage E ctx inputImage w)"
  by (simp add: generateImageToImage_def split: prod.splits sum.splits)

lemma generateMultiImageComposition_returns:
  "returns (generateMultiImageComposition E ctx inputs w)"
  by (simp add: generateMultiImageComposition_def split: prod.splits sum.splits option.splits)

lemma refineImage_returns: "returns (refineImage E ctx inputImage w)"
  by (simp add: refineImage_def split: prod.splits sum.splits)

lemma generateVideo_throws_AppError: "throwsOnlyAppErrors (generateVideo E params w)"
  by (simp add: generateVideo_def throwsOnlyAppErrors_def isAppError_def
      split: prod.splits sum.splits)

lemma video_rejected_run:
  "generateVideo videoRejectingEnv exampleVideoParams exampleWorld =
     (Inl (AppError ''Freepik API error: Invalid API key. Please check your FREEPIK_API_KEY environment variable.''
             401 ''FREEPIK_VIDEO_API_ERROR''),
      exampleWorld\<lparr>downloadCalls := 1, videoSubmitCalls := 1\<rparr>)"
  by (simp add: generateVideo_def imageToVideo_def imageToVideoBody_def validateImageUrl_def
      videoApiErrorMessage_def handleFreepikError_def videoRejectingEnv_def exampleEnv_def
      exampleVideoParams_def exampleWorld_def isAppError_def ok_def truthy_def orString_def Let_def)

text \<open>
  Claim C2 fails as stated: \<open>generateVideo\<close> lets the provider's refusal leave as a
  thrown AppError.
\<close>

theorem generateVideo_throws_counterexample:
  "\<not> returns (generateVideo videoRejectingEnv exampleVideoParams exampleWorld)
   \<and> fst (generateVideo videoRejectingEnv exampleVideoParams exampleWorld) =
       Inl (AppError ''Freepik API error: Invalid API key. Please check your FREEPIK_API_KEY environment variable.''
              401 ''FREEPIK_VIDEO_API_ERROR'')"
  by (simp add: video_rejected_run returns_def)

lemma catchGeneration_translated [simp]:
  "translated E (Some e) (catchGeneration E e r w)"
  by (simp add: translated_def catchGeneration_def failureOf_def Let_def)

lemma completeGeneration_translated [simp]:
  "translated E None (completeGeneration E ctx gid g inputs fr w)"
  by (simp add: translated_def completeGeneration_def isSuccess_def split: prod.splits)

lemma generateTextToImage_translated:
  "translated E (thrownTextToImage E ctx w) (generateTextToImage E ctx w)"
  by (simp add: generateTextToImage_def thrownTextToImage_def thrownBySteps_def
      split: prod.splits sum.splits)

lemma generateImageToImage_translated:
  "translated E (thrownImageToImage E ctx inputImage w) (generateImageToImage E ctx inputImage w)"
  by (simp add: generateImageToImage_def thrownImageToImage_def thrownBySteps_def
      thrownByInput_def orElse_def split: prod.splits sum.splits)

lemma generateMultiImageComposition_translated:
  "translated E (thrownMultiImage E ctx inputs w) (generateMultiImageComposition E ctx inputs w)"
  by (auto simp: generateMultiImageComposition_def thrownMultiImage_def thrownBySteps_def
      orElse_def split: prod.splits sum.splits option.splits)

lemma refineImage_translated:
  "translated E (thrownRefine E ctx inputImage w) (refineImage E ctx inputImage w)"
  by (simp add: refineImage_def thrownRefine_def thrownBySteps_def
      thrownByInput_def orElse_def split: prod.splits sum.splits)

text \<open>
  Claim C2 as amended. Whatever the context and whatever the collaborators answer, the
  four image entry points return a result and throw nothing, and the result translates
  what was thrown inside: for a thrown value it is the failure that carries the value's
  code (\<open>GENERATION_FAILED\<close> when it is not an AppError) and message, and it is a success
  exactly when no step threw. \<open>generateVideo\<close> either returns or throws an AppError.
\<close>

theorem image_entry_points_never_throw:
  "returns (generateTextToImage E ctx w)
   \<and> returns (generateImageToImage E ctx inputImage w)
   \<and> returns (generateMultiImageComposition E ctx inputs w)
   \<and> returns (refineImage E ctx inputImage w)
   \<and> translated E (thrownTextToImage E ctx w) (generateTextToImage E ctx w)
   \<and> translated E (thrownImageToImage E ctx inputImage w) (generateImageToImage E ctx inputImage w)
   \<and> translated E (thrownMultiImage E ctx inputs w) (generateMultiImageComposition E ctx inputs w)
   \<and> translated E (thrownRefine E ctx inputImage w) (refineImage E ctx inputImage w)
   \<and> throwsOnlyAppErrors (generateVideo E params v)"
  by (intro conjI generateTextToImage_returns generateImageToImage_returns
      generateMultiImageComposition_returns refineImage_returns generateVideo_throws_AppError
      generateTextToImage_translated generateImageToImage_translated
      generateMultiImageComposition_translated refineImage_translated)

lemma rejecting_thrown:
  "thrownTextToImage rejectingEnv exampleContext exampleWorld =
     Some (AppError ''Freepik API error: Bad request'' 400 ''ProviderRejected'')"
  by (simp add: thrownTextToImage_def thrownBySteps_def rejectingEnv_def example_defs
      exampleRecord_def orchestrator_defs js_defs freepik_defs Let_def numeral_3_eq_3)

lemma free_tier_thrown:
  "thrownMultiImage exampleEnv exampleContext [''a'', ''b''] exampleWorld =
     Some (SubscriptionError ''Multi-image composition requires Plus or Pro subscription'')"
  by (simp add: thrownMultiImage_def exampleContext_def)

theorem image_entry_points_never_throw_witness:
  "fst (generateTextToImage rejectingEnv exampleContext exampleWorld) =
     Inr (Failure \<lparr>code = ''ProviderRejected'', message = ''Freepik API error: Bad request'',
                   details = Some 400\<rparr>)
   \<and> fst (generateMultiImageComposition exampleEnv exampleContext [''a'', ''b''] exampleWorld) =
     Inr (Failure \<lparr>code = ''SUBSCRIPTION_ERROR'',
                   message = ''Multi-image composition requires Plus or Pro subscription'',
                   details = Some 403\<rparr>)"
proof -
  have a: "translated rejectingEnv (thrownTextToImage rejectingEnv exampleContext exampleWorld)
             (generateTextToImage rejectingEnv exampleContext exampleWorld)"
    using image_entry_points_never_throw [of rejectingEnv exampleContext exampleWorld]
    by blast
  have b: "translated exampleEnv
             (thrownMultiImage exampleEnv exampleContext [''a'', ''b''] exampleWorld)
             (generateMultiImageComposition exampleEnv exampleContext [''a'', ''b''] exampleWorld)"
    using image_entry_points_never_throw [of exampleEnv exampleContext exampleWorld _ "[''a'', ''b'']"]
    by blast
  have c: "fst (generateTextToImage rejectingEnv exampleContext exampleWorld) =
     Inr (Failure \<lparr>code = ''ProviderRejected'', message = ''Freepik API error: Bad request'',
                   details = Some 400\<rparr>)"
    using a [unfolded rejecting_thrown]
    by (simp add: translated_def failureOf_def errorCode_def errMessage_def statusCode_def)
  have d: "fst (generateMultiImageComposition exampleEnv exampleContext [''a'', ''b''] exampleWorld) =
     Inr (Failure \<lparr>code = ''SUBSCRIPTION_ERROR'',
                   message = ''Multi-image composition requires Plus or Pro subscription'',
                   details = Some 403\<rparr>)"
    using b [unfolded free_tier_thrown]
    by (simp add: translated_def failureOf_def errorCode_def errMessage_def statusCode_def
        exampleEnv_def)
  show ?thesis using c d by (rule conjI)
qed

section \<open>The retry bound\<close>

lemma textToImage_transient:
  assumes "prompt req = Some p" and "transientSubmit E (fetchSubmit E (submitCalls w))"
  shows "\<exists>e. textToImage E req w = (Inl e, w\<lparr>submitCalls := Suc (submitCalls w)\<rparr>)
             \<and> retryable E e \<and> isAppError e"
  using assms
  by (auto simp: textToImage_def textToImageBody_def requestImageUrl_def transientSubmit_def
      Let_def handleFreepikError_def isAppError_def retryable_def statusCode_def
      split: http_response.splits js_error.splits)

lemma asReason_shape: "\<exists>m st. asReason E reason e = AppError m st reason"
  by (simp add: asReason_def)

lemma three_attempts:
  assumes p: "prompt req = Some p" and t: "\<And>k. transientSubmit E (fetchSubmit E k)"
  shows "\<exists>m st. executeWithRetry E (textToImage E req) w =
           (Inl (AppError m st ''ProviderUnavailable''),
            w\<lparr>submitCalls := submitCalls w + 3,
              slept := slept w @ [backoff E 1000 1, backoff E 1000 2]\<rparr>)"
proof -
  let ?w1 = "w\<lparr>submitCalls := Suc (submitCalls w)\<rparr>"
  let ?w1s = "sleep (backoff E 1000 1) ?w1"
  let ?w2 = "?w1s\<lparr>submitCalls := Suc (submitCalls ?w1s)\<rparr>"
  let ?w2s = "sleep (backoff E 1000 2) ?w2"
  let ?w3 = "?w2s\<lparr>submitCalls := Suc (submitCalls ?w2s)\<rparr>"
  obtain e1 where a1: "textToImage E req w = (Inl e1, ?w1)" "retryable E e1"
    using textToImage_transient [OF p t [of "submitCalls w"]] by blast
  obtain e2 where a2: "textToImage E req ?w1s = (Inl e2, ?w2)" "retryable E e2"
    using textToImage_transient [OF p t [of "submitCalls ?w1s"]] by blast
  obtain e3 where a3: "textToImage E req ?w2s = (Inl e3, ?w3)" "retryable E e3"
    using textToImage_transient [OF p t [of "submitCalls ?w2s"]] by blast
  obtain m st where r: "asReason E ''ProviderUnavailable'' e3 = AppError m st ''ProviderUnavailable''"
    using asReason_shape by blast
  have "executeWithRetry E (textToImage E req) w = (Inl (asReason E ''ProviderUnavailable'' e3), ?w3)"
    by (simp add: executeWithRetry_def withRetry_def numeral_3_eq_3 a1 a2 a3
        del: One_nat_def)
  then show ?thesis
    by (simp add: r sleep_def)
qed


lemma validated_prompt:
  "validateGenerationContext E ctx w = (Inr (), w1) \<Longrightarrow> \<exists>p. prompt (request ctx) = Some p"
  by (auto simp: validateGenerationContext_def findByClerkId_def dbOp_def Let_def truthy_def
      split: option.splits if_splits)

lemma validateAndConsumeQuota_frame:
  "validateAndConsumeQuota E ctx gid g w = (r, w') \<Longrightarrow>
     submitCalls w' = submitCalls w \<and> pollCalls w' = pollCalls w \<and> slept w' = slept w"
  by (auto simp: validateAndConsumeQuota_def findByClerkId_def saveUser_def saveGeneration_def
      dbOp_def Let_def split: option.splits if_splits)

lemma catchGeneration_result:
  "catchGeneration E (AppError m st c) r w =
     (Inr (Failure \<lparr>code = c, message = m, details = Some st\<rparr>), snd (catchGeneration E (AppError m st c) r w))"
  by (simp add: catchGeneration_def errorCode_def errMessage_def statusCode_def Let_def)

lemma catchGeneration_frame:
  "submitCalls (snd (catchGeneration E e r w)) = submitCalls w
   \<and> pollCalls (snd (catchGeneration E e r w)) = pollCalls w
   \<and> slept (snd (catchGeneration E e r w)) = slept w"
  by (auto simp: catchGeneration_def updateGenerationRecord_def saveGeneration_def dbOp_def Let_def
      split: option.splits prod.splits)

lemma catchGeneration_saved:
  "dbFail E (dbOps w) = None \<Longrightarrow>
     generations (snd (catchGeneration E (AppError m st c) (Some (gid, g)) w)) =
       (generations w)[gid := g\<lparr>status := ''failed'', errorMessage := Some m\<rparr>]"
  by (simp add: catchGeneration_def updateGenerationRecord_def saveGeneration_def dbOp_def
      errMessage_def Let_def)

text \<open>
  Claim C5. When the context passes validation, the record is created, the quota step
  succeeds and every submission to the provider fails in a transient way, the provider is
  called exactly three times, with the waits \<open>backoff 1000 1\<close> and \<open>backoff 1000 2\<close>
  between the attempts, and \<open>generateTextToImage\<close> returns a failure with reason
  \<open>ProviderUnavailable\<close>; the record is saved as failed when the store accepts the write.
\<close>

theorem retry_bound:
  assumes v: "validateGenerationContext E ctx w = (Inr (), w1)"
      and c: "createGenerationRecord E ctx ''text-to-image'' w1 = (Inr (gid, g), w2)"
      and q: "validateAndConsumeQuota E ctx gid g w2 = ((qr, g1), w3)"
      and s: "q_success qr"
      and t: "\<And>k. transientSubmit E (fetchSubmit E k)"
  shows "\<exists>m st w'. generateTextToImage E ctx w =
           (Inr (Failure \<lparr>code = ''ProviderUnavailable'', message = m, details = Some st\<rparr>), w')
         \<and> submitCalls w' = submitCalls w + 3
         \<and> slept w' = slept w @ [backoff E 1000 1, backoff E 1000 2]
         \<and> (dbFail E (dbOps w3) = None \<longrightarrow>
              generations w' =
                (generations w3)[gid := g1\<lparr>status := ''failed'', errorMessage := Some m\<rparr>])"
proof -
  obtain p where p: "prompt (request ctx) = Some p"
    using validated_prompt [OF v] by blast
  let ?w4 = "w3\<lparr>submitCalls := submitCalls w3 + 3,
                slept := slept w3 @ [backoff E 1000 1, backoff E 1000 2]\<rparr>"
  obtain m st where r: "executeWithRetry E (textToImage E (request ctx)) w3 =
           (Inl (AppError m st ''ProviderUnavailable''), ?w4)"
    using three_attempts [OF p t, of w3] by blast
  have w1: "w1 = w\<lparr>dbOps := Suc (dbOps w)\<rparr>"
    using validateGenerationContext_world [of E ctx w] v by simp
  note f2 = createGenerationRecord_frame [OF c]
  note f3 = validateAndConsumeQuota_frame [OF q]
  let ?w' = "snd (catchGeneration E (AppError m st ''ProviderUnavailable'') (Some (gid, g1)) ?w4)"
  have a1: "generateTextToImage E ctx w =
           (Inr (Failure \<lparr>code = ''ProviderUnavailable'', message = m, details = Some st\<rparr>), ?w')"
    using s catchGeneration_result [of E m st "''ProviderUnavailable''" "Some (gid, g1)" ?w4]
    by (simp add: generateTextToImage_def v c q r)
  have a2: "submitCalls ?w' = submitCalls w + 3"
    using catchGeneration_frame [of E "AppError m st ''ProviderUnavailable''" "Some (gid, g1)" ?w4]
      f2 f3 w1 by simp
  have a3: "slept ?w' = slept w @ [backoff E 1000 1, backoff E 1000 2]"
    using catchGeneration_frame [of E "AppError m st ''ProviderUnavailable''" "Some (gid, g1)" ?w4]
      f2 f3 w1 by simp
  have a4: "dbFail E (dbOps w3) = None \<longrightarrow>
              generations ?w' =
                (generations w3)[gid := g1\<lparr>status := ''failed'', errorMessage := Some m\<rparr>]"
    using catchGeneration_saved [of E ?w4 m st "''ProviderUnavailable''" gid g1] by simp
  show ?thesis
    by (rule exI [of _ m], rule exI [of _ st], rule exI [of _ ?w']) (intro conjI a1 a2 a3 a4)
qed

theorem retry_bound_witness:
  "(\<forall>k. transientSubmit unavailableEnv (fetchSubmit unavailableEnv k))
   \<and> (\<exists>m st w'. generateTextToImage unavailableEnv exampleContext exampleWorld =
          (Inr (Failure \<lparr>code = ''ProviderUnavailable'', message = m, details = Some st\<rparr>), w')
        \<and> submitCalls w' = 3 \<and> slept w' = [1000, 1000]
        \<and> generations w' = [exampleRecord\<lparr>status := ''failed'', errorMessage := Some m\<rparr>])"
proof -
  let ?w3 = "exampleWorld\<lparr>dbOps := 5,
               generations := [exampleRecord\<lparr>status := ''processing''\<rparr>],
               users := [''user_1'' \<mapsto> \<lparr>isActive = True, monthlyUsage = 1, userTier = ''free''\<rparr>]\<rparr>"
  have h1: "validateGenerationContext unavailableEnv exampleContext exampleWorld
              = (Inr (), exampleWorld\<lparr>dbOps := 1\<rparr>)"
    by (simp add: unavailableEnv_def example_defs orchestrator_defs js_defs Let_def)
  have h2: "createGenerationRecord unavailableEnv exampleContext ''text-to-image''
              (exampleWorld\<lparr>dbOps := 1\<rparr>)
              = (Inr (0, exampleRecord), exampleWorld\<lparr>dbOps := 2, generations := [exampleRecord]\<rparr>)"
    by (simp add: unavailableEnv_def example_defs exampleRecord_def orchestrator_defs js_defs Let_def)
  have h3: "validateAndConsumeQuota unavailableEnv exampleContext 0 exampleRecord
              (exampleWorld\<lparr>dbOps := 2, generations := [exampleRecord]\<rparr>)
              = ((\<lparr>q_success = True, q_message = None, q_remaining = None, q_resetDate = None\<rparr>,
                  exampleRecord\<lparr>status := ''processing''\<rparr>), ?w3)"
    by (simp add: unavailableEnv_def example_defs exampleRecord_def orchestrator_defs js_defs Let_def)
  have h4: "q_success \<lparr>q_success = True, q_message = None, q_remaining = None, q_resetDate = None\<rparr>"
    by simp
  have h5: "\<And>k. transientSubmit unavailableEnv (fetchSubmit unavailableEnv k)"
    by (simp add: transientSubmit_def unavailableEnv_def ok_def)
  have d: "dbFail unavailableEnv (dbOps ?w3) = None"
    by (simp add: unavailableEnv_def exampleEnv_def)
  obtain m st w' where r:
      "generateTextToImage unavailableEnv exampleContext exampleWorld =
          (Inr (Failure \<lparr>code = ''ProviderUnavailable'', message = m, details = Some st\<rparr>), w')"
      "submitCalls w' = submitCalls exampleWorld + 3"
      "slept w' = slept exampleWorld @ [backoff unavailableEnv 1000 1, backoff unavailableEnv 1000 2]"
      "generations w' =
         (generations ?w3)[0 := exampleRecord\<lparr>status := ''processing'', status := ''failed'',
                                  errorMessage := Some m\<rparr>]"
    using retry_bound [OF h1 h2 h3 h4 h5] d by blast
  have "submitCalls w' = 3 \<and> slept w' = [1000, 1000]
        \<and> generations w' = [exampleRecord\<lparr>status := ''failed'', errorMessage := Some m\<rparr>]"
    using r(2-4) by (simp add: exampleWorld_def unavailableEnv_def exampleEnv_def)
  then show ?thesis
    using r(1) h5 by blast
qed

section \<open>Polling under the retry handler\<close>














section \<open>A failing upload\<close>

lemma requestImageUrl_nonempty: "requestImageUrl E req w = (Inr u, w') \<Longrightarrow> u \<noteq> []"
  by (auto simp: requestImageUrl_def Let_def truthy_def
      split: option.splits http_response.splits prod.splits sum.splits if_splits)

lemma uploadToCloudinary_fallback:
  assumes "\<And>w. \<not> u_success (fst (uploadImage E w))"
  shows "fst (uploadToCloudinary E u w) = directUrlFallback E u"
  using assms [of "w\<lparr>downloadCalls := Suc (downloadCalls w)\<rparr>"]
  by (auto simp: uploadToCloudinary_def Let_def split: http_response.splits prod.splits)

lemma processImage_fallback:
  assumes "\<And>w. \<not> u_success (fst (uploadImage E w))" and "img_data im = None"
  shows "fst (processImage E t im w) = im\<lparr>processedAt := Some (now E), tier := Some t\<rparr>"
  using assms(1) [of w] assms(2)
  by (auto simp: processImage_def Let_def truthy_def
      split: prod.splits sum.splits option.splits)

lemma textToImage_kept:
  assumes p: "requestImageUrl E req w = (Inr u, w1)"
      and f: "\<And>w. \<not> u_success (fst (uploadImage E w))"
  shows "fst (textToImage E req w) =
           Inr \<lparr>fr_images = [toImageData E u (directUrlFallback E u)],
                fr_creditsUsed = calculateCreditsUsed req\<rparr>"
  using uploadToCloudinary_fallback [OF f, of u w1]
  by (auto simp: textToImage_def textToImageBody_def p split: prod.splits)

lemma withRetry_first_success:
  "operation w = (Inr x, w') \<Longrightarrow> executeWithRetry E operation w = (Inr x, w')"
  by (simp add: executeWithRetry_def withRetry_def numeral_3_eq_3)

lemma kept_asset_eq:
  "u \<noteq> [] \<Longrightarrow>
   (toImageData E u (directUrlFallback E u))\<lparr>processedAt := Some (now E), tier := Some t\<rparr>
     = keptAsset E t u"
  by (simp add: toImageData_def directUrlFallback_def keptAsset_def)

lemma kept_asset_result:
  assumes v: "validateGenerationContext E ctx w = (Inr (), w1)"
      and c: "createGenerationRecord E ctx ''text-to-image'' w1 = (Inr (gid, g), w2)"
      and q: "validateAndConsumeQuota E ctx gid g w2 = ((qr, g1), w3)"
      and s: "q_success qr"
      and p: "requestImageUrl E (request ctx) w3 = (Inr u, w4)"
      and f: "\<And>w. \<not> u_success (fst (uploadImage E w))"
  shows "fst (generateTextToImage E ctx w) =
           Inr (Success
             \<lparr>images = [keptAsset E (subscriptionTier ctx) u],
              creditsUsed = calculateCreditsUsed (request ctx),
              generationRecord =
                (gid, g1\<lparr>status := ''completed'',
                         outputImages := [toOutputImage (keptAsset E (subscriptionTier ctx) u)]\<rparr>)\<rparr>)"
proof -
  let ?fr = "\<lparr>fr_images = [toImageData E u (directUrlFallback E u)],
              fr_creditsUsed = calculateCreditsUsed (request ctx)\<rparr>"
  obtain w5 where t: "textToImage E (request ctx) w3 = (Inr ?fr, w5)"
    using textToImage_kept [OF p f] by (cases "textToImage E (request ctx) w3") simp
  have r: "executeWithRetry E (textToImage E (request ctx)) w3 = (Inr ?fr, w5)"
    using t by (rule withRetry_first_success)
  have u: "u \<noteq> []" by (rule requestImageUrl_nonempty [OF p])
  have i: "img_data (toImageData E u (directUrlFallback E u)) = None"
    by (simp add: toImageData_def)
  have pi: "fst (processImage E (subscriptionTier ctx) (toImageData E u (directUrlFallback E u)) w5)
              = keptAsset E (subscriptionTier ctx) u"
    using processImage_fallback [OF f i] kept_asset_eq [OF u] by simp
  show ?thesis
    using s pi
    by (auto simp: generateTextToImage_def v c q r completeGeneration_def
        updateGenerationRecord_def split: prod.splits sum.splits)
qed








text \<open>
  Claim C9 as amended. When the provider has produced an image URL and every upload to the
  media store fails, \<open>generateTextToImage\<close> still returns a success with exactly one
  image and marks the record completed with that output. The image carries the
  provider's URL as \<open>url\<close>, \<open>secureUrl\<close>, \<open>cloudinaryUrl\<close> and \<open>originalUrl\<close>, the
  placeholder metadata of the fallback, and no field that marks it as not persisted.
\<close>

theorem upload_failure_keeps_asset:
  assumes "validateGenerationContext E ctx w = (Inr (), w1)"
      and "createGenerationRecord E ctx ''text-to-image'' w1 = (Inr (gid, g), w2)"
      and "validateAndConsumeQuota E ctx gid g w2 = ((qr, g1), w3)"
      and "q_success qr"
      and "requestImageUrl E (request ctx) w3 = (Inr u, w4)"
      and "\<And>w. \<not> u_success (fst (uploadImage E w))"
  shows "fst (generateTextToImage E ctx w) =
           Inr (Success
             \<lparr>images = [keptAsset E (subscriptionTier ctx) u],
              creditsUsed = calculateCreditsUsed (request ctx),
              generationRecord =
                (gid, g1\<lparr>status := ''completed'',
                         outputImages := [toOutputImage (keptAsset E (subscriptionTier ctx) u)]\<rparr>)\<rparr>)
       \<and> url (keptAsset E (subscriptionTier ctx) u) = u
       \<and> originalUrl (keptAsset E (subscriptionTier ctx) u) = u
       \<and> secureUrl (keptAsset E (subscriptionTier ctx) u) = u
       \<and> processingError (keptAsset E (subscriptionTier ctx) u) = None"
  using kept_asset_result [OF assms] by (simp add: keptAsset_def)

lemma store_down_steps:
  "validateGenerationContext storeDownEnv exampleContext exampleWorld
     = (Inr (), exampleWorld\<lparr>dbOps := 1\<rparr>)"
  "createGenerationRecord storeDownEnv exampleContext ''text-to-image'' (exampleWorld\<lparr>dbOps := 1\<rparr>)
     = (Inr (0, exampleRecord), exampleWorld\<lparr>dbOps := 2, generations := [exampleRecord]\<rparr>)"
  "validateAndConsumeQuota storeDownEnv exampleContext 0 exampleRecord
     (exampleWorld\<lparr>dbOps := 2, generations := [exampleRecord]\<rparr>)
     = ((\<lparr>q_success = True, q_message = None, q_remaining = None, q_resetDate = None\<rparr>,
         exampleRecord\<lparr>status := ''processing''\<rparr>),
        exampleWorld\<lparr>dbOps := 5,
               generations := [exampleRecord\<lparr>status := ''processing''\<rparr>],
               users := [''user_1'' \<mapsto> \<lparr>isActive = True, monthlyUsage = 1, userTier = ''free''\<rparr>]\<rparr>)"
  "requestImageUrl storeDownEnv (request exampleContext)
     (exampleWorld\<lparr>dbOps := 5,
               generations := [exampleRecord\<lparr>status := ''processing''\<rparr>],
               users := [''user_1'' \<mapsto> \<lparr>isActive = True, monthlyUsage = 1, userTier = ''free''\<rparr>]\<rparr>)
     = (Inr ''https://x/img.png'',
        exampleWorld\<lparr>dbOps := 5,
               generations := [exampleRecord\<lparr>status := ''processing''\<rparr>],
               users := [''user_1'' \<mapsto> \<lparr>isActive = True, monthlyUsage = 1, userTier = ''free''\<rparr>],
               submitCalls := 1\<rparr>)"
  "\<not> u_success (fst (uploadImage storeDownEnv w))"
  by (simp_all add: storeDownEnv_def example_defs exampleRecord_def orchestrator_defs js_defs
      requestImageUrl_def uploadImage_def uploadFailed_def Let_def)

lemma fallback_like_upload:
  "fst (uploadToCloudinary storeDownEnv ''https://x/img.png'' exampleWorld)
     = fst (uploadToCloudinary mirrorEnv ''https://x/img.png'' exampleWorld)"
  by (simp add: uploadToCloudinary_def uploadImage_def uploadFailed_def directUrlFallback_def
      storeDownEnv_def mirrorEnv_def exampleEnv_def exampleWorld_def js_defs Let_def)

text \<open>
  Claim C9 fails as stated: with the media store down the job completes and keeps the
  asset, but the asset names the provider's URL as its \<open>secureUrl\<close> and has no flag
  (\<open>processingError\<close> is unset); what \<open>uploadToCloudinary\<close> hands on is the same as after
  an upload that succeeded with these values.
\<close>

theorem unflagged_asset_counterexample:
  "fst (generateTextToImage storeDownEnv exampleContext exampleWorld) =
     Inr (Success
       \<lparr>images = [keptAsset storeDownEnv ''free'' ''https://x/img.png''],
        creditsUsed = 1,
        generationRecord =
          (0, exampleRecord\<lparr>status := ''completed'',
                 outputImages := [toOutputImage (keptAsset storeDownEnv ''free'' ''https://x/img.png'')]\<rparr>)\<rparr>)
   \<and> secureUrl (keptAsset storeDownEnv ''free'' ''https://x/img.png'') = ''https://x/img.png''
   \<and> processingError (keptAsset storeDownEnv ''free'' ''https://x/img.png'') = None
   \<and> \<not> u_success (fst (uploadImage storeDownEnv exampleWorld))
   \<and> u_success (fst (uploadImage mirrorEnv exampleWorld))
   \<and> fst (uploadToCloudinary storeDownEnv ''https://x/img.png'' exampleWorld)
       = fst (uploadToCloudinary mirrorEnv ''https://x/img.png'' exampleWorld)"
  using kept_asset_result [OF store_down_steps(1-3) _ store_down_steps(4,5)]
    store_down_steps(5) [of exampleWorld] fallback_like_upload
  by (simp add: keptAsset_def exampleContext_def exampleRequest_def calculateCreditsUsed_def
      orInt_def uploadImage_def mirrorEnv_def exampleEnv_def)

theorem upload_failure_keeps_asset_witness:
  "(\<forall>w. \<not> u_success (fst (uploadImage storeDownEnv w)))
   \<and> isSuccess (fst (generateTextToImage storeDownEnv exampleContext exampleWorld))
   \<and> url (keptAsset storeDownEnv ''free'' ''https://x/img.png'') = ''https://x/img.png''"
  using upload_failure_keeps_asset [OF store_down_steps(1-3) _ store_down_steps(4,5)]
    store_down_steps(5)
  by (simp add: isSuccess_def exampleContext_def)

section \<open>HTTP status of a failure\<close>

lemma controller_failure_400:
  assumes a: "jsOr (auth_userId req) (user_id req) = Some uid" and n: "uid \<noteq> []"
      and u: "ensureUserExists E uid w = (Inr usr, w1)"
      and p: "b_prompt req \<noteq> None"
      and g: "generateTextToImage E
                (createContext E uid (userTier usr) (bodyRequest req) (req_quotaInfo req)) w1
              = (Inr (Failure err), w2)"
  shows "fst (textToImageController E req w) =
           \<lparr>res_status = 400,
            res_body = [(''success'', JBool False),
                        (''message'', JString (if message err = [] then ''Image generation failed''
                                               else message err))]\<rparr>"
  using n p by (auto simp: textToImageController_def a u g Let_def)

lemma controller_unauthenticated_401:
  assumes "\<not> truthy (jsOr (auth_userId req) (user_id req))"
  shows "fst (textToImageController E req w) =
           \<lparr>res_status = 401,
            res_body = [(''success'', JBool False),
                        (''message'', JString ''Authentication required - no user ID found'')]\<rparr>"
  using assms by (auto simp: textToImageController_def truthy_def split: option.splits)

lemma controller_exception_500:
  assumes a: "jsOr (auth_userId req) (user_id req) = Some uid" and n: "uid \<noteq> []"
      and u: "ensureUserExists E uid w = (Inl e, w1)"
  shows "fst (textToImageController E req w) =
           \<lparr>res_status = 500,
            res_body = [(''success'', JBool False),
                        (''message'', JString ''Internal server error during image generation'')]\<rparr>"
  using n by (simp add: textToImageController_def a u internalError_def)

lemma video_route_failure_500:
  assumes "truthy (b_image req)" and "truthy (b_prompt req)"
      and "generateVideoService E (videoSubmitCalls w) = Inl e"
  shows "fst (generateVideoController E req w) =
           \<lparr>res_status = 500,
            res_body = [(''success'', JBool False),
                        (''error'', JString (case errMessage e of
                                              Some m \<Rightarrow> m | None \<Rightarrow> ''Video generation failed''))]\<rparr>"
  using assms by (simp add: generateVideoController_def Let_def)

lemma db_down_steps:
  "jsOr (auth_userId exampleHttpRequest) (user_id exampleHttpRequest) = Some ''user_1''"
  "ensureUserExists dbDownEnv ''user_1'' exampleWorld
     = (Inr \<lparr>isActive = True, monthlyUsage = 0, userTier = ''free''\<rparr>, exampleWorld\<lparr>dbOps := 1\<rparr>)"
  "b_prompt exampleHttpRequest \<noteq> None"
  "generateTextToImage dbDownEnv
     (createContext dbDownEnv ''user_1'' ''free'' (bodyRequest exampleHttpRequest)
        (req_quotaInfo exampleHttpRequest)) (exampleWorld\<lparr>dbOps := 1\<rparr>)
     = (Inr (Failure \<lparr>code = ''GENERATION_FAILED'', message = ''db down'', details = None\<rparr>),
        exampleWorld\<lparr>dbOps := 3\<rparr>)"
  by (simp_all add: dbDownEnv_def example_defs exampleHttpRequest_def bodyRequest_def
      createContext_def ensureUserExists_def orchestrator_defs js_defs Let_def)

text \<open>
  Claim C8 fails as stated: an unexpected error inside the orchestrator (the database
  refuses the new record) is answered with status 400, and the body has no \<open>code\<close>.
\<close>

theorem unexpected_error_400_counterexample:
  "fst (textToImageController dbDownEnv exampleHttpRequest exampleWorld) =
     \<lparr>res_status = 400,
      res_body = [(''success'', JBool False), (''message'', JString ''db down'')]\<rparr>
   \<and> map_of (res_body (fst (textToImageController dbDownEnv exampleHttpRequest exampleWorld)))
       ''code'' = None"
proof -
  have ne: "''user_1'' \<noteq> []" by simp
  have g: "generateTextToImage dbDownEnv
             (createContext dbDownEnv ''user_1''
                (userTier \<lparr>isActive = True, monthlyUsage = 0, userTier = ''free''\<rparr>)
                (bodyRequest exampleHttpRequest) (req_quotaInfo exampleHttpRequest))
             (exampleWorld\<lparr>dbOps := 1\<rparr>)
           = (Inr (Failure \<lparr>code = ''GENERATION_FAILED'', message = ''db down'', details = None\<rparr>),
              exampleWorld\<lparr>dbOps := 3\<rparr>)"
    using db_down_steps(4) by simp
  show ?thesis
    using controller_failure_400 [OF db_down_steps(1) ne db_down_steps(2,3) g] by simp
qed

text \<open>
  Claim C8 as amended. A text-to-image request whose generation fails is answered with
  status 400 and the body \<open>{success: false, message}\<close>, without a \<open>code\<close>, whatever the
  reason of the failure; a request without user id is answered with 401; an exception in
  the controller itself (the user cannot be read or created) with 500; and the video route
  answers every failure of the video service with 500 and \<open>{success: false, error}\<close>.
\<close>

theorem failure_status_mapping:
  assumes "jsOr (auth_userId req) (user_id req) = Some uid" and "uid \<noteq> []"
      and "ensureUserExists E uid w = (Inr usr, w1)"
      and "b_prompt req \<noteq> None"
      and "generateTextToImage E
              (createContext E uid (userTier usr) (bodyRequest req) (req_quotaInfo req)) w1
            = (Inr (Failure err), w2)"
  shows "fst (textToImageController E req w) =
           \<lparr>res_status = 400,
            res_body = [(''success'', JBool False),
                        (''message'', JString (if message err = [] then ''Image generation failed''
                                               else message err))]\<rparr>
       \<and> map_of (res_body (fst (textToImageController E req w))) ''code'' = None
       \<and> (\<forall>req' w'. \<not> truthy (jsOr (auth_userId req') (user_id req')) \<longrightarrow>
              res_status (fst (textToImageController E req' w')) = 401)
       \<and> (\<forall>req' uid' e' w' w1'.
              jsOr (auth_userId req') (user_id req') = Some uid' \<and> uid' \<noteq> []
              \<and> ensureUserExists E uid' w' = (Inl e', w1') \<longrightarrow>
              res_status (fst (textToImageController E req' w')) = 500)
       \<and> (\<forall>req' w' e'.
              truthy (b_image req') \<and> truthy (b_prompt req')
              \<and> generateVideoService E (videoSubmitCalls w') = Inl e' \<longrightarrow>
              fst (generateVideoController E req' w') =
                \<lparr>res_status = 500,
                 res_body = [(''success'', JBool False),
                             (''error'', JString (case errMessage e' of
                                                   Some m \<Rightarrow> m | None \<Rightarrow> ''Video generation failed''))]\<rparr>)"
proof -
  have a: "fst (textToImageController E req w) =
           \<lparr>res_status = 400,
            res_body = [(''success'', JBool False),
                        (''message'', JString (if message err = [] then ''Image generation failed''
                                               else message err))]\<rparr>"
    by (rule controller_failure_400 [OF assms])
  show ?thesis
    using a controller_unauthenticated_401 [of _ E] controller_exception_500 [of _ _ E]
      video_route_failure_500 [of _ E]
    by simp
qed

theorem failure_status_mapping_witness:
  "fst (textToImageController dbDownEnv exampleHttpRequest exampleWorld) =
     \<lparr>res_status = 400,
      res_body = [(''success'', JBool False), (''message'', JString ''db down'')]\<rparr>
   \<and> res_status (fst (textToImageController dbDownEnv
        (exampleHttpRequest\<lparr>auth_userId := None\<rparr>) exampleWorld)) = 401
   \<and> res_status (fst (textToImageController dbDownEnv exampleHttpRequest
        (exampleWorld\<lparr>dbOps := 2\<rparr>))) = 500
   \<and> fst (generateVideoController dbDownEnv exampleHttpRequest exampleWorld) =
       \<lparr>res_status = 500,
        res_body = [(''success'', JBool False),
                    (''error'', JString ''Video generation failed: timeout of 30000ms exceeded'')]\<rparr>"
proof -
  have ne: "''user_1'' \<noteq> []" by simp
  have g: "generateTextToImage dbDownEnv
             (createContext dbDownEnv ''user_1''
                (userTier \<lparr>isActive = True, monthlyUsage = 0, userTier = ''free''\<rparr>)
                (bodyRequest exampleHttpRequest) (req_quotaInfo exampleHttpRequest))
             (exampleWorld\<lparr>dbOps := 1\<rparr>)
           = (Inr (Failure \<lparr>code = ''GENERATION_FAILED'', message = ''db down'', details = None\<rparr>),
              exampleWorld\<lparr>dbOps := 3\<rparr>)"
    using db_down_steps(4) by simp
  note T = failure_status_mapping [OF db_down_steps(1) ne db_down_steps(2,3) g]
  have t1: "fst (textToImageController dbDownEnv exampleHttpRequest exampleWorld) =
     \<lparr>res_status = 400,
      res_body = [(''success'', JBool False), (''message'', JString ''db down'')]\<rparr>"
    using T [THEN conjunct1] by simp
  note t3 = T [THEN conjunct2, THEN conjunct2, THEN conjunct1, rule_format]
  note t4 = T [THEN conjunct2, THEN conjunct2, THEN conjunct2, THEN conjunct1, rule_format]
  note t5 = T [THEN conjunct2, THEN conjunct2, THEN conjunct2, THEN conjunct2, rule_format]
  have h401: "\<not> truthy (jsOr (auth_userId (exampleHttpRequest\<lparr>auth_userId := None\<rparr>))
                          (user_id (exampleHttpRequest\<lparr>auth_userId := None\<rparr>)))"
    by (simp add: exampleHttpRequest_def truthy_def jsOr_def)
  have h500: "ensureUserExists dbDownEnv ''user_1'' (exampleWorld\<lparr>dbOps := 2\<rparr>)
                = (Inl (Error ''db down''), exampleWorld\<lparr>dbOps := 3\<rparr>)"
    by (simp add: ensureUserExists_def findByClerkId_def dbOp_def dbDownEnv_def exampleWorld_def)
  have hv: "truthy (b_image exampleHttpRequest)" "truthy (b_prompt exampleHttpRequest)"
      "generateVideoService dbDownEnv (videoSubmitCalls exampleWorld)
        = Inl (Error ''Video generation failed: timeout of 30000ms exceeded'')"
    by (simp_all add: exampleHttpRequest_def truthy_def generateVideoService_def dbDownEnv_def
        orString_def)
  have c1: "res_status (fst (textToImageController dbDownEnv
        (exampleHttpRequest\<lparr>auth_userId := None\<rparr>) exampleWorld)) = 401"
    by (rule t3 [OF h401])
  have c2: "res_status (fst (textToImageController dbDownEnv exampleHttpRequest
        (exampleWorld\<lparr>dbOps := 2\<rparr>))) = 500"
    using t4 [of exampleHttpRequest "''user_1''" "exampleWorld\<lparr>dbOps := 2\<rparr>"] db_down_steps(1) h500
    by simp
  have c3: "fst (generateVideoController dbDownEnv exampleHttpRequest exampleWorld) =
       \<lparr>res_status = 500,
        res_body = [(''success'', JBool False),
                    (''error'', JString ''Video generation failed: timeout of 30000ms exceeded'')]\<rparr>"
    using t5 [of exampleHttpRequest exampleWorld] hv by (simp add: errMessage_def)
  show ?thesis
    using t1 c1 c2 c3 by simp
qed

section \<open>Records per attempt\<close>

lemma saveGeneration_length:
  "length (generations (snd (saveGeneration E gid g w))) = length (generations w)"
  by (simp add: saveGeneration_def dbOp_def split: option.splits)

lemma updateGenerationRecord_length:
  "length (generations (snd (updateGenerationRecord E gid g f w))) = length (generations w)"
  by (simp add: updateGenerationRecord_def saveGeneration_def dbOp_def split: option.splits)

lemma updateGenerationRecord_saved_length:
  "updateGenerationRecord E gid g f w = (g', w') \<Longrightarrow>
     length (generations w') = length (generations w)"
  using updateGenerationRecord_length [of E gid g f w] by simp

lemma catchGeneration_length:
  "length (generations (snd (catchGeneration E e r w))) = length (generations w)"
  by (simp add: catchGeneration_def updateGenerationRecord_length Let_def split: option.splits)

lemma validateAndConsumeQuota_length:
  "length (generations (snd (validateAndConsumeQuota E ctx gid g w))) = length (generations w)"
  by (simp add: validateAndConsumeQuota_def findByClerkId_def saveUser_def saveGeneration_def
      dbOp_def Let_def split: option.splits)

lemma completeGeneration_length:
  "length (generations (snd (completeGeneration E ctx gid g inputs fr w))) = length (generations w)"
proof -
  obtain ps w1 where p: "processGeneratedImages E (fr_images fr) (subscriptionTier ctx) w = (ps, w1)"
    by (cases "processGeneratedImages E (fr_images fr) (subscriptionTier ctx) w")
  have "generations w1 = generations w"
    using processGeneratedImages_sameDb [OF p] by (simp add: sameDb_def)
  then show ?thesis
    by (auto simp: completeGeneration_def p split: prod.splits
        dest: updateGenerationRecord_saved_length)
qed

lemma generateTextToImage_records:
  "length (generations (snd (generateTextToImage E ctx w))) =
     length (generations w) + (if recordCreated E ctx w then 1 else 0)"
proof (cases "validateGenerationContext E ctx w")
  case (Pair r1 w1)
  have g1: "generations w1 = generations w"
    using validateGenerationContext_world [of E ctx w] Pair by simp
  show ?thesis
  proof (cases r1)
    case (Inl e)
    then show ?thesis
      using Pair g1 by (simp add: generateTextToImage_def recordCreated_def catchGeneration_length)
  next
    case (Inr u)
    show ?thesis
    proof (cases "createGenerationRecord E ctx ''text-to-image'' w1")
      case c: (Pair r2 w2)
      show ?thesis
      proof (cases r2)
        case (Inl e)
        have "generations w2 = generations w1"
          using c Inl by (auto simp: createGenerationRecord_def insertGeneration_def dbOp_def Let_def
              split: option.splits)
        then show ?thesis
          using Pair Inr c Inl g1
          by (simp add: generateTextToImage_def recordCreated_def catchGeneration_length)
      next
        case r: (Inr gr)
        obtain gid g where gr: "gr = (gid, g)" by (cases gr)
        have l2: "length (generations w2) = Suc (length (generations w))"
          using createGenerationRecord_Inr [of E ctx "''text-to-image''" w1 gid g w2] c r gr g1
          by simp
        obtain qr g1' w3 where q: "validateAndConsumeQuota E ctx gid g w2 = ((qr, g1'), w3)"
          by (cases "validateAndConsumeQuota E ctx gid g w2") auto
        have l3: "length (generations w3) = length (generations w2)"
          using validateAndConsumeQuota_length [of E ctx gid g w2] q by simp
        obtain r4 w4 where p: "executeWithRetry E (textToImage E (request ctx)) w3 = (r4, w4)"
          by (cases "executeWithRetry E (textToImage E (request ctx)) w3")
        have l4: "generations w4 = generations w3"
          using executeWithRetry_sameDb [OF textToImage_sameDb p] by (simp add: sameDb_def)
        have "length (generations (snd (generateTextToImage E ctx w))) = length (generations w3)"
          using Pair Inr c r gr q p l4
          by (simp add: generateTextToImage_def catchGeneration_length completeGeneration_length
              split: sum.splits)
        then show ?thesis
          using l2 l3 Pair Inr c r by (simp add: recordCreated_def)
      qed
    qed
  qed
qed

lemma ensureUserExists_generations:
  "ensureUserExists E uid w = (r, w') \<Longrightarrow> generations w' = generations w"
  by (auto simp: ensureUserExists_def findByClerkId_def createUser_def dbOp_def
      split: option.splits js_error.splits if_splits)


lemma controller_history:
  assumes a: "jsOr (auth_userId req) (user_id req) = Some uid" and n: "uid \<noteq> []"
      and u: "ensureUserExists E uid w = (Inr usr, w1)"
      and p: "b_prompt req \<noteq> None"
      and g: "generateTextToImage E
                (createContext E uid (userTier usr) (bodyRequest req) (req_quotaInfo req)) w1
              = (Inr result, w2)"
      and h: "dbFail E (dbOps w2) = None"
  shows "generations (snd (textToImageController E req w)) =
           generations w2 @ [historyRecord E uid ''text-to-image'' (b_prompt req) result (b_quality req)]"
  using n p h
  by (auto simp: textToImageController_def a u g Let_def saveGenerationHistory_def
      insertGeneration_def dbOp_def split: generation_result.splits)

text \<open>
  Claim C7 as amended. For a text-to-image request that reaches the orchestrator, the
  controller appends one history record that summarises the job, completed or failed as
  the result is, when the store accepts the write; the orchestrator has by then
  persisted a record of its own whenever the context passed validation and the insert
  succeeded. Such an attempt leaves two records, not one.
\<close>

theorem history_records:
  assumes "jsOr (auth_userId req) (user_id req) = Some uid" and "uid \<noteq> []"
      and "ensureUserExists E uid w = (Inr usr, w1)"
      and "b_prompt req \<noteq> None"
      and "generateTextToImage E
             (createContext E uid (userTier usr) (bodyRequest req) (req_quotaInfo req)) w1
           = (Inr result, w2)"
      and "dbFail E (dbOps w2) = None"
  shows "generations (snd (textToImageController E req w)) =
           generations w2 @ [historyRecord E uid ''text-to-image'' (b_prompt req) result (b_quality req)]
       \<and> status (historyRecord E uid ''text-to-image'' (b_prompt req) result (b_quality req)) =
           (case result of Success d \<Rightarrow> ''completed'' | Failure err \<Rightarrow> ''failed'')
       \<and> length (generations w2) =
           length (generations w) +
           (if recordCreated E (createContext E uid (userTier usr) (bodyRequest req) (req_quotaInfo req)) w1
            then 1 else 0)"
proof -
  have g1: "generations w1 = generations w"
    by (rule ensureUserExists_generations [OF assms(3)])
  have l: "length (generations w2) =
           length (generations w1) +
           (if recordCreated E (createContext E uid (userTier usr) (bodyRequest req) (req_quotaInfo req)) w1
            then 1 else 0)"
    using generateTextToImage_records
      [of E "createContext E uid (userTier usr) (bodyRequest req) (req_quotaInfo req)" w1] assms(5)
    by simp
  show ?thesis
    using controller_history [OF assms] l g1 by (simp add: historyRecord_def)
qed

lemma example_controller_steps:
  "jsOr (auth_userId exampleHttpRequest) (user_id exampleHttpRequest) = Some ''user_1''"
  "ensureUserExists exampleEnv ''user_1'' exampleWorld
     = (Inr \<lparr>isActive = True, monthlyUsage = 0, userTier = ''free''\<rparr>, exampleWorld\<lparr>dbOps := 1\<rparr>)"
  "b_prompt exampleHttpRequest \<noteq> None"
  "recordCreated exampleEnv
     (createContext exampleEnv ''user_1'' ''free'' (bodyRequest exampleHttpRequest)
        (req_quotaInfo exampleHttpRequest)) (exampleWorld\<lparr>dbOps := 1\<rparr>)"
  "dbFail exampleEnv k = None"
  "generations exampleWorld = []"
  by (simp_all add: example_defs exampleHttpRequest_def bodyRequest_def recordCreated_def
      createContext_def ensureUserExists_def orchestrator_defs js_defs Let_def)

lemma example_controller_run:
  obtains result w2 where
    "generateTextToImage exampleEnv
       (createContext exampleEnv ''user_1''
          (userTier \<lparr>isActive = True, monthlyUsage = 0, userTier = ''free''\<rparr>)
          (bodyRequest exampleHttpRequest) (req_quotaInfo exampleHttpRequest))
       (exampleWorld\<lparr>dbOps := 1\<rparr>) = (Inr result, w2)"
proof -
  let ?r = "generateTextToImage exampleEnv
       (createContext exampleEnv ''user_1''
          (userTier \<lparr>isActive = True, monthlyUsage = 0, userTier = ''free''\<rparr>)
          (bodyRequest exampleHttpRequest) (req_quotaInfo exampleHttpRequest))
       (exampleWorld\<lparr>dbOps := 1\<rparr>)"
  have "returns ?r" by (rule generateTextToImage_returns)
  then obtain result where "fst ?r = Inr result"
    by (auto simp: returns_def split: sum.splits)
  then have "?r = (Inr result, snd ?r)"
    by (cases ?r) simp
  then show ?thesis using that by blast
qed

text \<open>
  Claim C7 fails as stated: one successful text-to-image request on an empty store leaves
  two records.
\<close>

theorem two_records_counterexample:
  "generations exampleWorld = []
   \<and> length (generations (snd (textToImageController exampleEnv exampleHttpRequest exampleWorld))) = 2"
proof -
  have ne: "''user_1'' \<noteq> []" by simp
  obtain result w2 where g: "generateTextToImage exampleEnv
       (createContext exampleEnv ''user_1''
          (userTier \<lparr>isActive = True, monthlyUsage = 0, userTier = ''free''\<rparr>)
          (bodyRequest exampleHttpRequest) (req_quotaInfo exampleHttpRequest))
       (exampleWorld\<lparr>dbOps := 1\<rparr>) = (Inr result, w2)"
    by (rule example_controller_run)
  have l: "length (generations w2) = 1"
    using generateTextToImage_records [of exampleEnv
        "createContext exampleEnv ''user_1'' ''free'' (bodyRequest exampleHttpRequest)
           (req_quotaInfo exampleHttpRequest)" "exampleWorld\<lparr>dbOps := 1\<rparr>"]
      g example_controller_steps(4,6)
    by simp
  show ?thesis
    using controller_history [OF example_controller_steps(1) ne example_controller_steps(2,3) g
        example_controller_steps(5)] l example_controller_steps(6)
    by simp
qed

theorem history_records_witness:
  "length (generations (snd (textToImageController exampleEnv exampleHttpRequest exampleWorld)))
     = length (generations exampleWorld) + 1 + 1
   \<and> g_type (last (generations (snd (textToImageController exampleEnv exampleHttpRequest exampleWorld))))
     = ''text-to-image''"
proof -
  have ne: "''user_1'' \<noteq> []" by simp
  obtain result w2 where g: "generateTextToImage exampleEnv
       (createContext exampleEnv ''user_1''
          (userTier \<lparr>isActive = True, monthlyUsage = 0, userTier = ''free''\<rparr>)
          (bodyRequest exampleHttpRequest) (req_quotaInfo exampleHttpRequest))
       (exampleWorld\<lparr>dbOps := 1\<rparr>) = (Inr result, w2)"
    by (rule example_controller_run)
  show ?thesis
    using history_records [OF example_controller_steps(1) ne example_controller_steps(2,3) g
        example_controller_steps(5)] example_controller_steps(4,6)
    by (simp add: historyRecord_def historyType_def)
qed

section \<open>The output invariant\<close>

lemma inFlight_invariant: "inFlight g \<Longrightarrow> jobInvariant g"
  by (auto simp: inFlight_def jobInvariant_def)

lemma list_all_update:
  "list_all P xs \<Longrightarrow> P x \<Longrightarrow> list_all P (xs[i := x])"
  by (induction xs arbitrary: i) (auto split: nat.splits)

lemma saveGeneration_invariant:
  assumes "list_all jobInvariant (generations w)" and "jobInvariant g"
  shows "list_all jobInvariant (generations (snd (saveGeneration E gid g w)))"
  using assms by (simp add: saveGeneration_def dbOp_def list_all_update split: option.splits)

lemma updateGenerationRecord_invariant:
  assumes "list_all jobInvariant (generations w)" and "jobInvariant (f g)"
  shows "list_all jobInvariant (generations (snd (updateGenerationRecord E gid g f w)))"
  using saveGeneration_invariant [OF assms, of E gid]
  by (auto simp: updateGenerationRecord_def split: prod.splits sum.splits)

lemma catchGeneration_invariant:
  assumes "list_all jobInvariant (generations w)"
      and "case r of None \<Rightarrow> True | Some (gid, g) \<Rightarrow> outputImages g = []"
  shows "list_all jobInvariant (generations (snd (catchGeneration E e r w)))"
proof (cases r)
  case None
  then show ?thesis using assms by (simp add: catchGeneration_def)
next
  case (Some a)
  obtain gid g where a: "a = (gid, g)" by (cases a)
  have o: "outputImages g = []" using assms(2) Some a by simp
  have "jobInvariant (g\<lparr>status := ''failed'',
          errorMessage := Some (case errMessage e of Some m \<Rightarrow> m | None \<Rightarrow> ''Unknown error'')\<rparr>)"
    using o by (simp add: jobInvariant_def)
  then show ?thesis
    using updateGenerationRecord_invariant [OF assms(1), of _ g E gid] Some a
    by (simp add: catchGeneration_def Let_def)
qed

lemma validateAndConsumeQuota_invariant:
  assumes "list_all jobInvariant (generations w)" and "inFlight g"
      and "validateAndConsumeQuota E ctx gid g w = ((qr, g1), w')"
  shows "list_all jobInvariant (generations w') \<and> inFlight g1"
proof -
  have p: "inFlight (g\<lparr>status := ''processing''\<rparr>)"
    using assms(2) by (simp add: inFlight_def)
  have s: "\<And>v. list_all jobInvariant (generations (snd (saveGeneration E gid (g\<lparr>status := ''processing''\<rparr>) v)))
            \<or> \<not> list_all jobInvariant (generations v)"
    using saveGeneration_invariant [OF _ inFlight_invariant [OF p]] by blast
  show ?thesis
    using assms p
    apply (simp add: validateAndConsumeQuota_def Let_def findByClerkId_def saveUser_def dbOp_def
        split: if_splits option.splits prod.splits sum.splits)
    apply (auto simp: saveGeneration_def dbOp_def list_all_update inFlight_invariant
        split: option.splits)
    done
qed

lemma withRetryLoop_result:
  assumes "\<And>w x w'. operation w = (Inr x, w') \<Longrightarrow> P x"
  shows "withRetryLoop E operation b k n w = (Inr x, w') \<Longrightarrow> P x"
proof (induction n arbitrary: w k)
  case 0
  then show ?case by simp
next
  case (Suc n)
  obtain r1 w1 where o: "operation w = (r1, w1)" by (cases "operation w")
  show ?case
  proof (cases r1)
    case (Inr y)
    then show ?thesis using Suc.prems o assms [of w y w1] by simp
  next
    case (Inl e)
    then show ?thesis
      using Suc.prems o Suc.IH [of "Suc k" "sleep (backoff E b k) w1"]
      by (auto split: if_splits)
  qed
qed

lemma textToImage_one_image:
  "textToImage E req w = (Inr fr, w') \<Longrightarrow> length (fr_images fr) = 1"
  by (auto simp: textToImage_def textToImageBody_def split: prod.splits sum.splits)

lemma imageToImage_one_image:
  "imageToImage E req w = (Inr fr, w') \<Longrightarrow> length (fr_images fr) = 1"
  by (auto simp: imageToImage_def dest: textToImage_one_image)

lemma executeWithRetry_one_image:
  assumes "\<And>w fr w'. operation w = (Inr fr, w') \<Longrightarrow> length (fr_images fr) = 1"
  shows "executeWithRetry E operation w = (Inr fr, w') \<Longrightarrow> length (fr_images fr) = 1"
  unfolding executeWithRetry_def withRetry_def
  by (rule withRetryLoop_result [where P = "\<lambda>fr. length (fr_images fr) = 1", OF assms])

lemma completeGeneration_invariant:
  assumes "list_all jobInvariant (generations w)" and "inFlight g"
      and "length (fr_images fr) = 1"
  shows "list_all jobInvariant (generations (snd (completeGeneration E ctx gid g inputs fr w)))"
proof -
  obtain ps w1 where p: "processGeneratedImages E (fr_images fr) (subscriptionTier ctx) w = (ps, w1)"
    by (cases "processGeneratedImages E (fr_images fr) (subscriptionTier ctx) w")
  have g1: "generations w1 = generations w"
    using processGeneratedImages_sameDb [OF p] by (simp add: sameDb_def)
  have l: "ps \<noteq> []"
    using processGeneratedImages_length [OF p] assms(3) by auto
  let ?f = "\<lambda>r. r\<lparr>status := ''completed'',
                    inputImages := (case inputs of None \<Rightarrow> inputImages r | Some xs \<Rightarrow> xs),
                    outputImages := map toOutputImage ps\<rparr>"
  have "jobInvariant (?f g)"
    using assms(2) l by (simp add: jobInvariant_def inFlight_def)
  then have "list_all jobInvariant (generations (snd (updateGenerationRecord E gid g ?f w1)))"
    using updateGenerationRecord_invariant [of w1 ?f g E gid] assms(1) g1 by simp
  then show ?thesis
    by (auto simp: completeGeneration_def p split: prod.splits)
qed


lemma createGenerationRecord_invariant:
  assumes "list_all jobInvariant (generations w)"
      and "createGenerationRecord E ctx type w = (r, w')"
  shows "list_all jobInvariant (generations w')
       \<and> (case r of Inl e \<Rightarrow> True | Inr (gid, g) \<Rightarrow> inFlight g)"
  using assms
  by (auto simp: createGenerationRecord_def insertGeneration_def dbOp_def Let_def
      jobInvariant_def inFlight_def split: option.splits)

lemma inFlight_no_outputs: "inFlight g \<Longrightarrow> outputImages g = []"
  by (simp add: inFlight_def)

lemma tail_invariant:
  assumes I: "list_all jobInvariant (generations w2)" and F: "inFlight g"
      and S: "\<And>w r w'. operation w = (r, w') \<Longrightarrow> sameDb w w'"
      and O: "\<And>w fr w'. operation w = (Inr fr, w') \<Longrightarrow> length (fr_images fr) = 1"
  shows "list_all jobInvariant (generations (snd
           (case validateAndConsumeQuota E qctx gid g w2 of
              ((quotaResult, g1), w3) \<Rightarrow>
                if \<not> q_success quotaResult
                then catchGeneration E (quotaExceededOf quotaResult) (Some (gid, g1)) w3
                else (case executeWithRetry E operation w3 of
                        (Inl e, w4) \<Rightarrow> catchGeneration E e (Some (gid, g1)) w4
                      | (Inr freepikResponse, w4) \<Rightarrow>
                          completeGeneration E ctx gid g1 inputs freepikResponse w4))))"
proof -
  obtain qr g1 w3 where q: "validateAndConsumeQuota E qctx gid g w2 = ((qr, g1), w3)"
    by (cases "validateAndConsumeQuota E qctx gid g w2") auto
  note q3 = validateAndConsumeQuota_invariant [OF I F q]
  have c: "\<And>e v. list_all jobInvariant (generations v) \<Longrightarrow>
             list_all jobInvariant (generations (snd (catchGeneration E e (Some (gid, g1)) v)))"
    using catchGeneration_invariant [where r = "Some (gid, g1)" and E = E] inFlight_no_outputs q3
    by simp
  obtain r4 w4 where p: "executeWithRetry E operation w3 = (r4, w4)"
    by (cases "executeWithRetry E operation w3")
  have g4: "generations w4 = generations w3"
    using executeWithRetry_sameDb [where operation = operation and E = E and w = w3
        and r = r4 and w' = w4] S p by (simp add: sameDb_def)
  have I4: "list_all jobInvariant (generations w4)"
    using q3 g4 by simp
  show ?thesis
  proof (cases r4)
    case (Inl e)
    then show ?thesis using q p c [OF I4] c q3 by simp
  next
    case (Inr fr)
    have "length (fr_images fr) = 1"
      using executeWithRetry_one_image [where operation = operation and E = E and w = w3
          and fr = fr and w' = w4] O p Inr by simp
    then show ?thesis
      using q p Inr c q3 completeGeneration_invariant [OF I4, where g = g1 and fr = fr and E = E
          and ctx = ctx and gid = gid and inputs = inputs] by simp
  qed
qed

lemma catch_none_invariant:
  "list_all jobInvariant (generations w) \<Longrightarrow>
     list_all jobInvariant (generations (snd (catchGeneration E e None w)))"
  by (rule catchGeneration_invariant) simp_all

lemma head_invariant:
  assumes I: "list_all jobInvariant (generations w)"
      and S: "\<And>w r w'. operation w = (r, w') \<Longrightarrow> sameDb w w'"
      and O: "\<And>w fr w'. operation w = (Inr fr, w') \<Longrightarrow> length (fr_images fr) = 1"
  shows "list_all jobInvariant (generations (snd
     (case validateGenerationContext E ctx w of
        (Inl e, w1) \<Rightarrow> catchGeneration E e None w1
      | (Inr u, w1) \<Rightarrow>
     (case createGenerationRecord E ctx type w1 of
        (Inl e, w2) \<Rightarrow> catchGeneration E e None w2
      | (Inr (gid, g), w2) \<Rightarrow>
     (case validateAndConsumeQuota E qctx gid g w2 of
        ((quotaResult, g1), w3) \<Rightarrow>
          if \<not> q_success quotaResult
          then catchGeneration E (quotaExceededOf quotaResult) (Some (gid, g1)) w3
          else
     (case executeWithRetry E operation w3 of
        (Inl e, w4) \<Rightarrow> catchGeneration E e (Some (gid, g1)) w4
      | (Inr freepikResponse, w4) \<Rightarrow>
          completeGeneration E ctx gid g1 inputs freepikResponse w4))))))"
proof -
  obtain r1 w1 where v: "validateGenerationContext E ctx w = (r1, w1)"
    by (cases "validateGenerationContext E ctx w")
  have I1: "list_all jobInvariant (generations w1)"
    using validateGenerationContext_world [of E ctx w] v I by simp
  obtain r2 w2 where c: "createGenerationRecord E ctx type w1 = (r2, w2)"
    by (cases "createGenerationRecord E ctx type w1")
  note c2 = createGenerationRecord_invariant [OF I1 c]
  show ?thesis
  proof (cases r1)
    case (Inl e)
    then show ?thesis using v catch_none_invariant [OF I1] by simp
  next
    case u: (Inr u)
    show ?thesis
    proof (cases r2)
      case (Inl e)
      then show ?thesis using v u c c2 catch_none_invariant [of w2] by simp
    next
      case (Inr gr)
      obtain gid g where gr: "gr = (gid, g)" by (cases gr)
      have F: "inFlight g" using c2 Inr gr by simp
      have I2: "list_all jobInvariant (generations w2)" using c2 by simp
      show ?thesis
        using v u c Inr gr tail_invariant [OF I2 F S O, where E = E and qctx = qctx and gid = gid
            and ctx = ctx and inputs = inputs] by simp
    qed
  qed
qed

lemma generateTextToImage_invariant:
  assumes "list_all jobInvariant (generations w)"
  shows "list_all jobInvariant (generations (snd (generateTextToImage E ctx w)))"
  unfolding generateTextToImage_def
  by (rule head_invariant [OF assms textToImage_sameDb textToImage_one_image])

lemma generateImageToImage_invariant:
  assumes "list_all jobInvariant (generations w)"
  shows "list_all jobInvariant (generations (snd (generateImageToImage E ctx inputImage w)))"
  unfolding generateImageToImage_def
  using head_invariant [OF assms imageToImage_sameDb imageToImage_one_image]
    catch_none_invariant [OF assms]
  by (simp split: sum.splits)

lemma refineImage_invariant:
  assumes "list_all jobInvariant (generations w)"
  shows "list_all jobInvariant (generations (snd (refineImage E ctx inputImage w)))"
  unfolding refineImage_def
  using head_invariant [OF assms imageToImage_sameDb imageToImage_one_image]
    catch_none_invariant [OF assms]
  by (simp split: sum.splits)

lemma generateMultiImageComposition_invariant:
  assumes "list_all jobInvariant (generations w)"
  shows "list_all jobInvariant (generations (snd (generateMultiImageComposition E ctx inputs w)))"
  unfolding generateMultiImageComposition_def
  using head_invariant [OF assms textToImage_sameDb textToImage_one_image]
    catch_none_invariant [OF assms]
  by (simp split: option.splits)


lemma catchGeneration_failure: "catchGeneration E e r w = (Inr (Success d), w') \<Longrightarrow> False"
  by (simp add: catchGeneration_def Let_def)

lemma completeGeneration_images:
  "completeGeneration E ctx gid g inputs fr w = (Inr (Success d), w') \<Longrightarrow>
     length (images d) = length (fr_images fr)"
  by (auto simp: completeGeneration_def split: prod.splits dest: processGeneratedImages_length)

lemma retried_textToImage_one_image:
  "executeWithRetry E (textToImage E req) w = (Inr fr, w') \<Longrightarrow> length (fr_images fr) = 1"
  by (rule executeWithRetry_one_image [OF textToImage_one_image])

lemma generateTextToImage_success_images:
  assumes "generateTextToImage E ctx w = (Inr (Success d), w')"
  shows "images d \<noteq> []"
proof -
  have "length (images d) = 1"
    using assms
    by (auto simp: generateTextToImage_def split: prod.splits sum.splits if_splits
        dest: catchGeneration_failure dest!: completeGeneration_images
              retried_textToImage_one_image)
  then show ?thesis by auto
qed

lemma historyRecord_invariant:
  "(case result of Success d \<Rightarrow> images d \<noteq> [] | Failure err \<Rightarrow> True) \<Longrightarrow>
     jobInvariant (historyRecord E uid type p result q)"
  by (auto simp: historyRecord_def jobInvariant_def split: generation_result.splits)

lemma saveGenerationHistory_invariant:
  assumes "list_all jobInvariant (generations w)"
      and "case result of Success d \<Rightarrow> images d \<noteq> [] | Failure err \<Rightarrow> True"
  shows "list_all jobInvariant (generations (saveGenerationHistory E uid type p result q w))"
  using assms(1) historyRecord_invariant [OF assms(2), of E uid type p q]
  by (simp add: saveGenerationHistory_def insertGeneration_def dbOp_def split: option.splits)

lemma textToImageController_invariant:
  assumes I: "list_all jobInvariant (generations w)"
  shows "list_all jobInvariant (generations (snd (textToImageController E req w)))"
proof (cases "truthy (jsOr (auth_userId req) (user_id req))")
  case False
  then show ?thesis
    using I by (auto simp: textToImageController_def truthy_def split: option.splits)
next
  case True
  then obtain uid where a: "jsOr (auth_userId req) (user_id req) = Some uid" and n: "uid \<noteq> []"
    by (auto simp: truthy_def split: option.splits)
  obtain r1 w1 where u: "ensureUserExists E uid w = (r1, w1)"
    by (cases "ensureUserExists E uid w")
  have I1: "list_all jobInvariant (generations w1)"
    using ensureUserExists_generations [OF u] I by simp
  show ?thesis
  proof (cases r1)
    case (Inl e)
    then show ?thesis using a n u I1 by (simp add: textToImageController_def)
  next
    case (Inr usr)
    show ?thesis
    proof (cases "b_prompt req = None")
      case True
      then show ?thesis using a n u Inr I1 by (simp add: textToImageController_def)
    next
      case False
      let ?ctx = "createContext E uid (userTier usr) (bodyRequest req) (req_quotaInfo req)"
      obtain r2 w2 where g: "generateTextToImage E ?ctx w1 = (r2, w2)"
        by (cases "generateTextToImage E ?ctx w1")
      have I2: "list_all jobInvariant (generations w2)"
        using generateTextToImage_invariant [OF I1, of E ?ctx] g by simp
      show ?thesis
      proof (cases r2)
        case (Inl e)
        then show ?thesis
          using a n u Inr False g I2 by (auto simp: textToImageController_def Let_def)
      next
        case r: (Inr result)
        have "case result of Success d \<Rightarrow> images d \<noteq> [] | Failure err \<Rightarrow> True"
          using generateTextToImage_success_images [of E ?ctx w1 _ w2] g r
          by (simp split: generation_result.splits)
        then have "list_all jobInvariant
                     (generations (saveGenerationHistory E uid ''text-to-image'' (b_prompt req)
                                     result (b_quality req) w2))"
          by (rule saveGenerationHistory_invariant [OF I2])
        then show ?thesis
          using a n u Inr False g r
          by (auto simp: textToImageController_def Let_def split: generation_result.splits)
      qed
    qed
  qed
qed

text \<open>
  Claim C6. If every record of the store satisfies the output invariant (completed exactly
  when it has outputs, failed exactly when its error message is set, no outputs when
  failed), then so does every record of the store after any of the four image entry
  points of the orchestrator, and after the text-to-image controller with its history
  write, whatever the collaborators answer.
\<close>

theorem output_invariant:
  assumes "list_all jobInvariant (generations w)"
  shows "list_all jobInvariant (generations (snd (generateTextToImage E ctx w)))
       \<and> list_all jobInvariant (generations (snd (generateImageToImage E ctx inputImage w)))
       \<and> list_all jobInvariant (generations (snd (generateMultiImageComposition E ctx inputs w)))
       \<and> list_all jobInvariant (generations (snd (refineImage E ctx inputImage w)))
       \<and> list_all jobInvariant (generations (snd (textToImageController E req w)))"
  using generateTextToImage_invariant [OF assms] generateImageToImage_invariant [OF assms]
    generateMultiImageComposition_invariant [OF assms] refineImage_invariant [OF assms]
    textToImageController_invariant [OF assms]
  by simp

theorem output_invariant_witness:
  "list_all jobInvariant (generations exampleWorld)
   \<and> generations (snd (generateTextToImage rejectingEnv exampleContext exampleWorld)) =
       [exampleRecord\<lparr>status := ''failed'',
          errorMessage := Some ''Freepik API error: Bad request''\<rparr>]
   \<and> jobInvariant (exampleRecord\<lparr>status := ''failed'',
          errorMessage := Some ''Freepik API error: Bad request''\<rparr>)"
proof -
  have h: "list_all jobInvariant (generations exampleWorld)"
    by (simp add: exampleWorld_def)
  show ?thesis
    using output_invariant [OF h, of rejectingEnv exampleContext] h
    by (simp add: rejecting_run)
qed

section \<open>Usage after a sequence of jobs\<close>

lemma quota_step_usage:
  "usageOf (snd (validateAndConsumeQuota E ctx gid g w)) (userId ctx) =
     usageOf w (userId ctx) + (if quotaCharged E ctx g w then credits g else 0)"
  by (auto simp: validateAndConsumeQuota_def findByClerkId_def saveUser_def saveGeneration_def
      dbOp_def Let_def usageOf_def quotaCharged_def split: option.splits)

lemma users_after_job:
  "users (snd (generateTextToImage E ctx w)) =
     (case validateGenerationContext E ctx w of
        (Inl e, w1) \<Rightarrow> users w
      | (Inr u, w1) \<Rightarrow>
          (case createGenerationRecord E ctx ''text-to-image'' w1 of
             (Inl e, w2) \<Rightarrow> users w
           | (Inr (gid, g), w2) \<Rightarrow> users (snd (validateAndConsumeQuota E ctx gid g w2))))"
proof -
  obtain r1 w1 where v: "validateGenerationContext E ctx w = (r1, w1)"
    by (cases "validateGenerationContext E ctx w")
  have u1: "users w1 = users w"
    using validateGenerationContext_world [of E ctx w] v by simp
  obtain r2 w2 where c: "createGenerationRecord E ctx ''text-to-image'' w1 = (r2, w2)"
    by (cases "createGenerationRecord E ctx ''text-to-image'' w1")
  have u2: "users w2 = users w"
    using createGenerationRecord_frame [OF c] u1 by simp
  show ?thesis
  proof (cases r1)
    case (Inl e)
    then show ?thesis
      using v u1 by (simp add: generateTextToImage_def catchGeneration_users)
  next
    case u: (Inr u)
    show ?thesis
    proof (cases r2)
      case (Inl e)
      then show ?thesis
        using v u c u2 by (simp add: generateTextToImage_def catchGeneration_users)
    next
      case (Inr gr)
      obtain gid g where gr: "gr = (gid, g)" by (cases gr)
      obtain qr g1 w3 where q: "validateAndConsumeQuota E ctx gid g w2 = ((qr, g1), w3)"
        by (cases "validateAndConsumeQuota E ctx gid g w2") auto
      obtain r4 w4 where p: "executeWithRetry E (textToImage E (request ctx)) w3 = (r4, w4)"
        by (cases "executeWithRetry E (textToImage E (request ctx)) w3")
      have w4: "users w4 = users w3"
        using executeWithRetry_sameDb [OF textToImage_sameDb p] by (simp add: sameDb_def)
      show ?thesis
        using v u c Inr gr q p w4
        by (simp add: generateTextToImage_def catchGeneration_users completeGeneration_users
            split: sum.splits)
    qed
  qed
qed

lemma job_usage:
  "usageOf (snd (generateTextToImage E ctx w)) (userId ctx) =
     usageOf w (userId ctx) + jobCharge E ctx w"
proof -
  obtain r1 w1 where v: "validateGenerationContext E ctx w = (r1, w1)"
    by (cases "validateGenerationContext E ctx w")
  have u1: "users w1 = users w"
    using validateGenerationContext_world [of E ctx w] v by simp
  obtain r2 w2 where c: "createGenerationRecord E ctx ''text-to-image'' w1 = (r2, w2)"
    by (cases "createGenerationRecord E ctx ''text-to-image'' w1")
  have u2: "users w2 = users w"
    using createGenerationRecord_frame [OF c] u1 by simp
  have e2: "usageOf w2 (userId ctx) = usageOf w (userId ctx)"
    using u2 by (simp add: usageOf_def)
  show ?thesis
    using v c e2 quota_step_usage [of E ctx _ _ w2]
    by (auto simp: usageOf_def [of "snd (generateTextToImage E ctx w)"] users_after_job
        jobCharge_def usageOf_def [symmetric] split: sum.splits prod.splits)
qed


lemma jobs_usage:
  "list_all (\<lambda>ctx. userId ctx = uid) ctxs \<Longrightarrow>
     usageOf (runJobs E ctxs w) uid = usageOf w uid + totalCharge E ctxs w"
proof (induction ctxs arbitrary: w)
  case Nil
  show ?case by simp
next
  case (Cons ctx ctxs)
  have u: "userId ctx = uid" and r: "list_all (\<lambda>ctx. userId ctx = uid) ctxs"
    using Cons.prems by simp_all
  show ?case
    using Cons.IH [OF r, of "snd (generateTextToImage E ctx w)"] job_usage [of E ctx w] u
    by simp
qed

lemma quota_success_charged:
  "validateAndConsumeQuota E ctx gid g w = ((qr, g1), w') \<Longrightarrow> q_success qr \<Longrightarrow>
     quotaCharged E ctx g w \<and> credits g1 = credits g"
  by (auto simp: validateAndConsumeQuota_def findByClerkId_def saveUser_def saveGeneration_def
      dbOp_def Let_def quotaCharged_def quotaFailure_def split: option.splits if_splits)

lemma completeGeneration_credits:
  "completeGeneration E ctx gid g inputs fr w = (Inr (Success d), w') \<Longrightarrow>
     credits (snd (generationRecord d)) = credits g"
  by (auto simp: completeGeneration_def updateGenerationRecord_def split: prod.splits sum.splits)

lemma completed_job_charged:
  assumes "generateTextToImage E ctx w = (Inr (Success d), w')"
  shows "jobCharge E ctx w = credits (snd (generationRecord d))"
  using assms
  by (auto simp: generateTextToImage_def jobCharge_def
      split: prod.splits sum.splits if_splits
      dest: catchGeneration_failure dest!: quota_success_charged completeGeneration_credits)

text \<open>
  Claim C1 as amended. Nothing is rolled back: after any sequence of text-to-image jobs of
  one owner, the owner's usage counter is its value before plus the charge of every job,
  and the charge of a job is decided at its quota step (the credits of the record when
  the context was valid, the record was created, the balance was sufficient and the user
  was found and saved; nothing otherwise), whether the job then completed or failed. A
  job that ends completed is always charged the credits of its record.
\<close>

theorem usage_after_jobs:
  assumes "list_all (\<lambda>ctx. userId ctx = uid) ctxs"
  shows "usageOf (runJobs E ctxs w) uid = usageOf w uid + totalCharge E ctxs w
       \<and> (\<forall>ctx v d v'. generateTextToImage E ctx v = (Inr (Success d), v') \<longrightarrow>
             jobCharge E ctx v = credits (snd (generationRecord d)))"
  using jobs_usage [OF assms] completed_job_charged by blast

lemma rejected_job_charge_first:
  "jobCharge rejectingEnv exampleContext exampleWorld = 1"
  by (simp add: jobCharge_def quotaCharged_def rejectingEnv_def example_defs
      exampleRecord_def validateGenerationContext_def createGenerationRecord_def
      findByClerkId_def insertGeneration_def dbOp_def getModelCapabilities_def js_defs Let_def)

lemma rejected_job_charge_second:
  "jobCharge rejectingEnv exampleContext
     (snd (generateTextToImage rejectingEnv exampleContext exampleWorld)) = 1"
  apply (simp only: rejecting_run snd_conv)
  apply (simp add: jobCharge_def quotaCharged_def rejectingEnv_def example_defs
      exampleRecord_def validateGenerationContext_def createGenerationRecord_def
      findByClerkId_def insertGeneration_def dbOp_def getModelCapabilities_def js_defs Let_def)
  done

theorem usage_after_jobs_witness:
  "list_all (\<lambda>ctx. userId ctx = ''user_1'') [exampleContext, exampleContext]
   \<and> usageOf exampleWorld ''user_1'' = 0
   \<and> isFailure (fst (generateTextToImage rejectingEnv exampleContext exampleWorld))
   \<and> usageOf (runJobs rejectingEnv [exampleContext, exampleContext] exampleWorld) ''user_1'' = 2
   \<and> isSuccess (fst (generateTextToImage storeDownEnv exampleContext exampleWorld))
   \<and> jobCharge storeDownEnv exampleContext exampleWorld = 1"
proof -
  have h: "list_all (\<lambda>ctx. userId ctx = ''user_1'') [exampleContext, exampleContext]"
    by (simp add: exampleContext_def)
  have t: "totalCharge rejectingEnv [exampleContext, exampleContext] exampleWorld = 2"
    by (simp add: rejected_job_charge_first rejected_job_charge_second)
  have u: "usageOf exampleWorld ''user_1'' = 0"
    by (simp add: usageOf_def exampleWorld_def)
  have f: "isFailure (fst (generateTextToImage rejectingEnv exampleContext exampleWorld))"
    by (simp add: rejecting_run isFailure_def)
  let ?d = "\<lparr>images = [keptAsset storeDownEnv (subscriptionTier exampleContext) ''https://x/img.png''],
             creditsUsed = calculateCreditsUsed (request exampleContext),
             generationRecord =
               (0, exampleRecord\<lparr>status := ''processing'', status := ''completed'',
                      outputImages := [toOutputImage (keptAsset storeDownEnv
                         (subscriptionTier exampleContext) ''https://x/img.png'')]\<rparr>)\<rparr>"
  have s: "fst (generateTextToImage storeDownEnv exampleContext exampleWorld) = Inr (Success ?d)"
    using kept_asset_result [OF store_down_steps(1-3) _ store_down_steps(4,5)] by simp
  then have s': "generateTextToImage storeDownEnv exampleContext exampleWorld =
                   (Inr (Success ?d), snd (generateTextToImage storeDownEnv exampleContext exampleWorld))"
    by (cases "generateTextToImage storeDownEnv exampleContext exampleWorld") simp
  have c: "jobCharge storeDownEnv exampleContext exampleWorld = credits (snd (generationRecord ?d))"
    using usage_after_jobs [OF h, of storeDownEnv exampleWorld] s' by blast
  have a: "usageOf (runJobs rejectingEnv [exampleContext, exampleContext] exampleWorld) ''user_1''
             = usageOf exampleWorld ''user_1'' + totalCharge rejectingEnv [exampleContext, exampleContext] exampleWorld"
    using usage_after_jobs [OF h, of rejectingEnv exampleWorld] by blast
  show ?thesis
    using h u f a t s c by (simp add: isSuccess_def exampleRecord_def)
qed

end
